theory Spec2Isabelle
  imports Complex_Main
begin

section \<open>Python errors\<close>

text \<open>
  Every exception the modelled code can raise is a value; a computation that can raise
  returns \<open>py_error + 'a\<close> with \<open>Inl\<close> for the exception.
\<close>

datatype py_error =
    TypeError
  | NameError string
  | UnboundLocalError string
  | AttributeError string
  | KeyError string
  | ValueError
  | InvalidArgumentError
  | OverflowError
  | IndexError

section \<open>modelParams.py: the distribution configuration\<close>

text \<open>
  \<open>ModelParams.distributions\<close> is a dict of dicts. Python dicts iterate in insertion
  order and the loop of \<open>get_distribution_by_name\<close> depends on that order, so both
  levels are association lists (with distinct keys, as a dict has). The values of the
  inner dicts are strings, ints and tuples.
\<close>

datatype cfg_value =
    CStr string
  | CInt nat
  | CIntTuple "nat list"
  | CStrTuple "string list"

type_synonym config = "(string \<times> cfg_value) list"

text \<open>
  \<open>__get_default_dist_config\<close>; the three arguments are \<open>self.num_countries\<close>,
  \<open>self.num_age_groups\<close> and \<open>len(self.df)\<close>. In Python \<open>(1)\<close> is the int 1 and
  \<open>("g_mu")\<close> is a string, not a tuple. The raw strings \<open>r"\sigma"\<close>, ... start with a
  backslash, the character 0x5C.
\<close>

definition get_default_dist_config :: "nat \<Rightarrow> nat \<Rightarrow> nat \<Rightarrow> (string \<times> config) list" where
  "get_default_dist_config num_countries num_age_groups len_df =
    [ (''I_0'',
        [ (''name'', CStr ''I_0''),
          (''long_name'', CStr ''Initial infectious people''),
          (''shape'', CIntTuple [num_countries, num_age_groups]),
          (''shape_label'', CStrTuple [''country'', ''age_group'']),
          (''math'', CStr ''I_0'') ]),
      (''R'',
        [ (''name'', CStr ''R''),
          (''long_name'', CStr ''Reproduction number''),
          (''shape'', CIntTuple [num_countries, num_age_groups]),
          (''shape_label'', CStrTuple [''country'', ''age_group'']),
          (''math'', CStr ''R'') ]),
      (''C'',
        [ (''name'', CStr ''C''),
          (''long_name'', CStr ''Contact matrix''),
          (''shape'', CIntTuple [num_countries, num_age_groups, num_age_groups]),
          (''shape_label'', CStrTuple [''country'', ''age_group_i'', ''age_group_j'']),
          (''math'', CStr ''C'') ]),
      (''sigma'',
        [ (''name'', CStr ''sigma''),
          (''long_name'', CStr ''likelihood scale''),
          (''shape'', CInt 1),
          (''shape_label'', CStr ''likelihood scale''),
          (''math'', CStr (CHR 0x5C # ''sigma'')) ]),
      (''g_mu'',
        [ (''name'', CStr ''g_mu''),
          (''long_name'', CStr ''long_name g_mu''),
          (''shape'', CInt 1),
          (''shape_label'', CStr ''g_mu''),
          (''math'', CStr (''g_{'' @ CHR 0x5C # ''mu}'')) ]),
      (''g_theta'',
        [ (''name'', CStr ''g_theta''),
          (''long_name'', CStr ''long_name g_theta''),
          (''shape'', CInt 1),
          (''shape_label'', CStr ''g_theta''),
          (''math'', CStr (''g_{'' @ CHR 0x5C # ''theta}'')) ]),
      (''new_cases'',
        [ (''name'', CStr ''new_cases''),
          (''long_name'', CStr ''Daily new infectious cases''),
          (''shape'', CIntTuple [len_df, num_countries, num_age_groups]),
          (''shape_label'', CStrTuple [''time'', ''country'', ''age_group'']) ]) ]"

text \<open>
  The loop of \<open>get_distribution_by_name\<close>:
  \<^verbatim>\<open>
  for dist, value in self.distributions.items():
      if value["name"] == name:
          this_dist = dist
  \<close>
  The local \<open>this_dist\<close> is unbound (\<open>None\<close> here) until the first match; a later match
  overwrites it. \<open>value["name"]\<close> raises KeyError on an entry without that key.
\<close>

fun find_this_dist ::
  "(string \<times> config) list \<Rightarrow> string \<Rightarrow> string option \<Rightarrow> py_error + string option" where
  "find_this_dist [] name this_dist = Inr this_dist"
| "find_this_dist ((dist_key, value) # rest) name this_dist =
    (case map_of value ''name'' of
       None \<Rightarrow> Inl (KeyError ''name'')
     | Some v \<Rightarrow> find_this_dist rest name (if v = CStr name then Some dist_key else this_dist))"

text \<open>
  \<open>return self.distributions[this_dist]\<close>: reading the unbound local raises
  UnboundLocalError.
\<close>

definition get_distribution_by_name ::
  "(string \<times> config) list \<Rightarrow> string \<Rightarrow> py_error + config" where
  "get_distribution_by_name distributions name =
    (case find_this_dist distributions name None of
       Inl e \<Rightarrow> Inl e
     | Inr None \<Rightarrow> Inl (UnboundLocalError ''this_dist'')
     | Inr (Some k) \<Rightarrow>
         (case map_of distributions k of
            None \<Rightarrow> Inl (KeyError k)
          | Some cfg \<Rightarrow> Inr cfg))"

text \<open>An entry of the dict whose \<open>"name"\<close> field equals \<open>name\<close>.\<close>

definition has_name :: "string \<Rightarrow> string \<times> config \<Rightarrow> bool" where
  "has_name name e = (map_of (snd e) ''name'' = Some (CStr name))"

text \<open>Every entry has a \<open>"name"\<close> field (true of the default configuration).\<close>

definition all_named :: "(string \<times> config) list \<Rightarrow> bool" where
  "all_named ds = list_all (\<lambda>e. map_of (snd e) ''name'' \<noteq> None) ds"

section \<open>Tensors\<close>

text \<open>
  A tensor is its shape and its entries by multi-index; the memory layout is not modelled.
  Only the entries at the indices of the shape are meaningful. A Python scalar is the
  tensor of shape \<open>[]\<close>. Computed entries are reals (exact arithmetic stands for the
  floating-point arithmetic of TensorFlow); where the code can meet a value that is not
  a number, the entry is a \<open>real option\<close> and \<open>None\<close> is NaN: the missing observations
  of the data tensor, the root of a negative number and a division by zero. The
  infections that \<open>main_model\<close> clips have entries that also may be infinite.
\<close>

record 'a tensor =
  shape :: "nat list"
  entry :: "nat list \<Rightarrow> 'a"

text \<open>All multi-indices of a shape, in row-major order (the last axis runs fastest).\<close>

fun indices :: "nat list \<Rightarrow> nat list list" where
  "indices [] = [[]]"
| "indices (n # ns) = concat (map (\<lambda>i. map ((#) i) (indices ns)) [0..<n])"

text \<open>An elementwise operation (\<open>tf.sqrt\<close>, \<open>np.isnan\<close>, \<open>~\<close>, adding a Python scalar).\<close>

definition tmap :: "('a \<Rightarrow> 'b) \<Rightarrow> 'a tensor \<Rightarrow> 'b tensor" where
  "tmap f T = \<lparr>shape = shape T, entry = (\<lambda>idx. f (entry T idx))\<rparr>"

text \<open>\<open>T[..., tf.newaxis]\<close> and \<open>T[tf.newaxis, ...]\<close>.\<close>

definition newaxis_last :: "'a tensor \<Rightarrow> 'a tensor" where
  "newaxis_last T = \<lparr>shape = shape T @ [1], entry = (\<lambda>idx. entry T (butlast idx))\<rparr>"

definition newaxis_first :: "'a tensor \<Rightarrow> 'a tensor" where
  "newaxis_first T = \<lparr>shape = 1 # shape T, entry = (\<lambda>idx. entry T (tl idx))\<rparr>"

text \<open>
  \<open>tf.transpose(T, perm)\<close>: axis \<open>j\<close> of the result is axis \<open>perm[j]\<close> of \<open>T\<close>, so the
  component \<open>k\<close> of the index into \<open>T\<close> is the component of the result's index at the
  position of \<open>k\<close> in \<open>perm\<close>. The code calls it with the constant permutation
  \<open>(1, 0, 2, 3)\<close> on a tensor of rank 4 only.
\<close>

definition position_of :: "nat list \<Rightarrow> nat \<Rightarrow> nat" where
  "position_of perm k = length (takeWhile (\<lambda>p. p \<noteq> k) perm)"

definition transpose_perm :: "'a tensor \<Rightarrow> nat list \<Rightarrow> 'a tensor" where
  "transpose_perm T perm =
     \<lparr>shape = map (\<lambda>p. shape T ! p) perm,
      entry = (\<lambda>idx. entry T (map (\<lambda>k. idx ! position_of perm k) [0..<length perm]))\<rparr>"

text \<open>
  Broadcasting of two shapes, aligned at their last axes: two dimensions are compatible
  when they are equal or one of them is 1. The shapes are given reversed.
\<close>

fun broadcast_rev :: "nat list \<Rightarrow> nat list \<Rightarrow> nat list option" where
  "broadcast_rev [] ys = Some ys"
| "broadcast_rev (x # xs) [] = Some (x # xs)"
| "broadcast_rev (x # xs) (y # ys) =
     (case broadcast_rev xs ys of
        None \<Rightarrow> None
      | Some r \<Rightarrow>
          if x = y then Some (x # r)
          else if y = 1 then Some (x # r)
          else if x = 1 then Some (y # r)
          else None)"

definition broadcast_shape :: "nat list \<Rightarrow> nat list \<Rightarrow> nat list option" where
  "broadcast_shape s1 s2 = map_option rev (broadcast_rev (rev s1) (rev s2))"

text \<open>
  The index into an operand of shape \<open>s\<close> for the index \<open>idx\<close> of the broadcast result:
  the leading axes the operand lacks are dropped, and an axis of dimension 1 is read at 0.
\<close>

definition bcast_index :: "nat list \<Rightarrow> nat list \<Rightarrow> nat list" where
  "bcast_index s idx =
     map2 (\<lambda>d i. if d = 1 then 0 else i) s (drop (length idx - length s) idx)"

definition broadcast_op ::
  "('a \<Rightarrow> 'b \<Rightarrow> 'c) \<Rightarrow> 'a tensor \<Rightarrow> 'b tensor \<Rightarrow> py_error + 'c tensor" where
  "broadcast_op f A B =
     (case broadcast_shape (shape A) (shape B) of
        None \<Rightarrow> Inl InvalidArgumentError
      | Some s \<Rightarrow>
          Inr \<lparr>shape = s,
               entry = (\<lambda>idx. f (entry A (bcast_index (shape A) idx))
                                  (entry B (bcast_index (shape B) idx)))\<rparr>)"

text \<open>
  \<open>tf.boolean_mask(T, mask, axis)\<close>: the shape of the mask must be the part of the shape
  of \<open>T\<close> that starts at \<open>axis\<close> (ValueError otherwise, as for a scalar mask); those axes
  are replaced by one axis that runs over the positions where the mask is true, in
  row-major order.
\<close>

definition boolean_mask :: "'a tensor \<Rightarrow> bool tensor \<Rightarrow> nat \<Rightarrow> py_error + 'a tensor" where
  "boolean_mask T msk axis =
     (let K = length (shape msk) in
      if K = 0 then Inl ValueError
      else if length (shape T) < axis + K then Inl ValueError
      else if take K (drop axis (shape T)) \<noteq> shape msk then Inl ValueError
      else
        let sel = filter (entry msk) (indices (shape msk)) in
        Inr \<lparr>shape = take axis (shape T) @ [length sel] @ drop (axis + K) (shape T),
             entry = (\<lambda>idx. entry T (take axis idx @ sel ! (idx ! axis) @ drop (Suc axis) idx))\<rparr>)"

text \<open>\<open>tf.sqrt\<close>: the root of a negative number is NaN.\<close>

definition tf_sqrt :: "real \<Rightarrow> real option" where
  "tf_sqrt x = (if x < 0 then None else Some (sqrt x))"

section \<open>ModelParams\<close>

text \<open>
  The fields of \<open>ModelParams\<close> the model reads. \<open>num_countries\<close>, \<open>num_age_groups\<close> and
  \<open>distributions\<close> are set by \<open>__init__\<close>; \<open>data_tensor\<close> (time, country, age group; NaN
  for a missing observation) and \<open>N_data_tensor\<close> (country, age group) are read by
  likelihood.py and model.py, and the code that fills them is not part of the sources,
  so they are fields whose values are given.
\<close>

record ModelParams =
  num_countries :: nat
  num_age_groups :: nat
  distributions :: "(string \<times> config) list"
  data_tensor :: "real option tensor"
  N_data_tensor :: "real tensor"

section \<open>likelihood.py\<close>

text \<open>The arguments of \<open>pm.StudentT(...)\<close>: the distribution object the function returns.\<close>

record StudentT =
  dist_name :: string
  loc :: "real tensor"
  scale :: "real option tensor"
  df :: nat
  observed :: "real option tensor"
  reinterpreted_batch_ndims :: nat

text \<open>
  Lines 26 to 29: the draw of \<open>sigma\<close> gets an age-group axis and a time axis; with a
  batch axis (rank 4) the batch axis is moved back to the front.
\<close>

definition sigma_axes :: "real tensor \<Rightarrow> real tensor" where
  "sigma_axes sigma0 =
     (let sigma1 = newaxis_last sigma0;
          sigma2 = newaxis_first sigma1
      in if length (shape sigma2) = 4 then transpose_perm sigma2 [1, 0, 2, 3] else sigma2)"

text \<open>Line 47: \<open>sigma * tf.sqrt(new_cases) + 1\<close>, with \<open>sigma\<close> after lines 26 to 29.\<close>

definition likelihood_scale :: "real tensor \<Rightarrow> real tensor \<Rightarrow> py_error + real option tensor" where
  "likelihood_scale sigma new_cases =
     (case broadcast_op (\<lambda>s r. map_option (\<lambda>r. s * r) r) sigma (tmap tf_sqrt new_cases) of
        Inl e \<Rightarrow> Inl e
      | Inr product \<Rightarrow> Inr (tmap (map_option (\<lambda>x. x + 1)) product))"

text \<open>
  \<open>studentT_likelihood(modelParams, new_cases)\<close> for one evaluation of the model. The
  first argument of the model is the value the sampler gives for the variable
  \<open>"sigma"\<close> (a \<open>HalfCauchy\<close> with \<open>event_stack = num_countries\<close>, so its last axis is
  the country axis). \<open>len_batch_shape\<close> is \<open>len(new_cases.shape) - 3\<close>; when it is
  negative, the slice \<open>shape[axis : axis + K]\<close> of the shape of \<open>new_cases\<close> that
  \<open>tf.boolean_mask\<close> compares with the shape of the mask (of rank \<open>K\<close>) has fewer than \<open>K\<close>
  axes, which is the ValueError of the first branch. The arguments of \<open>pm.StudentT\<close> are
  evaluated in the order they are written; the logging statements of lines 36 to 41
  evaluate the masked data and the masked \<open>new_cases\<close> before, with the same errors.
\<close>

definition studentT_likelihood ::
  "real tensor \<Rightarrow> ModelParams \<Rightarrow> real tensor \<Rightarrow> py_error + StudentT" where
  "studentT_likelihood sigma_draw modelParams new_cases =
     (let sigma = sigma_axes sigma_draw;
          data = data_tensor modelParams;
          msk = tmap (\<lambda>b. \<not> b) (tmap (\<lambda>d. d = None) data)
      in if length (shape new_cases) < 3 then Inl ValueError
         else
           let len_batch_shape = length (shape new_cases) - 3 in
           case boolean_mask new_cases msk len_batch_shape of
             Inl e \<Rightarrow> Inl e
           | Inr loc_arg \<Rightarrow>
               (case likelihood_scale sigma new_cases of
                  Inl e \<Rightarrow> Inl e
                | Inr scale_full \<Rightarrow>
                    (case boolean_mask scale_full msk len_batch_shape of
                       Inl e \<Rightarrow> Inl e
                     | Inr scale_arg \<Rightarrow>
                         (case boolean_mask data msk 0 of
                            Inl e \<Rightarrow> Inl e
                          | Inr observed_arg \<Rightarrow>
                              Inr \<lparr>dist_name = ''like'',
                                   loc = loc_arg,
                                   scale = scale_arg,
                                   df = 4,
                                   observed = observed_arg,
                                   reinterpreted_batch_ndims = 1\<rparr>))))"

text \<open>
  The positions of the observed entries that are not NaN, in row-major order: what the
  properties of the mask are stated against.
\<close>

definition observed_positions :: "real option tensor \<Rightarrow> nat list list" where
  "observed_positions data = filter (\<lambda>idx. entry data idx \<noteq> None) (indices (shape data))"

text \<open>
  Modelled from the spec: the \<open>SoftPlus\<close> transform of \<open>covid19_npis.transformations\<close>
  and the \<open>HalfCauchy\<close> class of \<open>covid19_npis.model.distributions\<close> are not part of
  the sources. The spec says that the scale is positive, "guaranteed by the soft-plus
  transform": the value of \<open>sigma\<close> is the soft-plus \<open>ln (1 + exp x)\<close> of the
  unconstrained value \<open>x\<close> the sampler works with, entry by entry.
\<close>

definition SoftPlus :: "real \<Rightarrow> real" where
  "SoftPlus x = ln (1 + exp x)"

definition HalfCauchy_sigma :: "real tensor \<Rightarrow> real tensor" where
  "HalfCauchy_sigma u = tmap SoftPlus u"

subsection \<open>A small data set\<close>

text \<open>
  Two days, one country, two age groups; the observation of the second age group on the
  first day is missing.
\<close>

definition example_data :: "real option tensor" where
  "example_data =
     \<lparr>shape = [2, 1, 2],
      entry = (\<lambda>idx. if idx = [0, 0, 0] then Some 5
                     else if idx = [1, 0, 0] then Some 7
                     else if idx = [1, 0, 1] then Some 2
                     else None)\<rparr>"

definition example_params :: ModelParams where
  "example_params =
     \<lparr>num_countries = 1, num_age_groups = 2,
      distributions = get_default_dist_config 1 2 2,
      data_tensor = example_data,
      N_data_tensor = \<lparr>shape = [1, 2], entry = (\<lambda>idx. 1000)\<rparr>\<rparr>"

definition example_cases :: "real tensor" where
  "example_cases =
     \<lparr>shape = [2, 1, 2],
      entry = (\<lambda>idx. if idx = [0, 0, 0] then 4
                     else if idx = [0, 0, 1] then 9
                     else if idx = [1, 0, 0] then 16
                     else 25)\<rparr>"

definition example_sigma :: "real tensor" where
  "example_sigma = \<lparr>shape = [1], entry = (\<lambda>idx. 2)\<rparr>"

text \<open>Expected cases with a negative entry at the first observed position.\<close>

definition example_cases_negative :: "real tensor" where
  "example_cases_negative =
     \<lparr>shape = [2, 1, 2], entry = (\<lambda>idx. if idx = [0, 0, 0] then - 1 else 4)\<rparr>"

text \<open>An unconstrained value of \<open>sigma\<close>, one country.\<close>

definition example_unconstrained :: "real tensor" where
  "example_unconstrained = \<lparr>shape = [1], entry = (\<lambda>idx. 0)\<rparr>"

section \<open>model.py\<close>

subsection \<open>The TensorFlow operations of main_model\<close>

text \<open>
  What an entry of the result of \<open>InfectionModel\<close> can be: a number, an infinity or NaN.
  \<open>InfectionModel\<close> is not part of the sources, divides by the population and receives
  the normalized contact matrix, which has NaN entries for a row of zeros, so no kind
  of value is excluded.
\<close>

datatype tf_float = Number real | PosInf | NegInf | NaN

text \<open>
  \<open>tf.minimum\<close> and \<open>tf.maximum\<close> of an entry and a Python number: NaN stays NaN, an
  infinity compares as larger, or smaller, than every number.
\<close>

fun tf_minimum :: "tf_float \<Rightarrow> real \<Rightarrow> tf_float" where
  "tf_minimum (Number x) y = Number (min x y)"
| "tf_minimum PosInf y = Number y"
| "tf_minimum NegInf y = NegInf"
| "tf_minimum NaN y = NaN"

fun tf_maximum :: "tf_float \<Rightarrow> real \<Rightarrow> tf_float" where
  "tf_maximum (Number x) y = Number (max x y)"
| "tf_maximum PosInf y = PosInf"
| "tf_maximum NegInf y = Number y"
| "tf_maximum NaN y = NaN"

text \<open>
  \<open>tf.clip_by_value(t, clip_value_min, clip_value_max)\<close> is
  \<open>tf.maximum(tf.minimum(t, clip_value_max), clip_value_min)\<close>, entry by entry.
\<close>

definition clip_by_value :: "tf_float tensor \<Rightarrow> real \<Rightarrow> real \<Rightarrow> tf_float tensor" where
  "clip_by_value t clip_value_min clip_value_max =
     tmap (\<lambda>x. tf_maximum (tf_minimum x clip_value_max) clip_value_min) t"

text \<open>
  \<open>tf.einsum("...an,...bn->...ab", X, Y)\<close>: both operands need the two named axes, the
  axes named \<open>n\<close> must agree, and the leading axes broadcast. Entry \<open>[..., a, b]\<close> of the
  result is the sum over \<open>n\<close> of \<open>X[..., a, n] * Y[..., b, n]\<close>.
\<close>

definition einsum_an_bn :: "real tensor \<Rightarrow> real tensor \<Rightarrow> py_error + real tensor" where
  "einsum_an_bn X Y =
     (if length (shape X) < 2 \<or> length (shape Y) < 2 then Inl InvalidArgumentError
      else
        let px = butlast (butlast (shape X));
            py = butlast (butlast (shape Y));
            A = last (butlast (shape X));
            B = last (butlast (shape Y));
            N = last (shape X)
        in if last (shape Y) \<noteq> N then Inl InvalidArgumentError
           else
             case broadcast_shape px py of
               None \<Rightarrow> Inl InvalidArgumentError
             | Some p \<Rightarrow>
                 Inr \<lparr>shape = p @ [A, B],
                      entry = (\<lambda>idx.
                        let pre = take (length p) idx;
                            a = idx ! length p;
                            b = idx ! Suc (length p)
                        in (\<Sum>n\<leftarrow>[0..<N]. entry X (bcast_index px pre @ [a, n])
                                           * entry Y (bcast_index py pre @ [b, n])))\<rparr>)"

text \<open>
  \<open>tf.einsum("t...ca->...tca", X)\<close> moves the first axis behind the axes of the ellipsis:
  a transposition with the permutation \<open>(1, ..., r-3, 0, r-2, r-1)\<close> for rank \<open>r\<close>.
\<close>

definition einsum_t_ca :: "real tensor \<Rightarrow> py_error + real tensor" where
  "einsum_t_ca X =
     (let r = length (shape X) in
      if r < 3 then Inl InvalidArgumentError
      else Inr (transpose_perm X ([1..<r - 2] @ [0, r - 2, r - 1])))"

text \<open>
  \<open>tf.linalg.normalize(T, ord=1, axis=-1)\<close> returns \<open>(T / norm, norm)\<close> where \<open>norm\<close> is
  \<open>tf.norm(T, ord=1, axis=-1, keepdims=True)\<close>, the sum of the absolute values along the
  last axis. A division by zero gives no number (NaN or an infinity).
\<close>

definition tf_div :: "real \<Rightarrow> real \<Rightarrow> real option" where
  "tf_div x y = (if y = 0 then None else Some (x / y))"

definition norm_ord1_last :: "real tensor \<Rightarrow> real tensor" where
  "norm_ord1_last T =
     \<lparr>shape = butlast (shape T) @ [1],
      entry = (\<lambda>idx. (\<Sum>j\<leftarrow>[0..<last (shape T)]. \<bar>entry T (butlast idx @ [j])\<bar>))\<rparr>"

definition normalize_ord1_last :: "real tensor \<Rightarrow> py_error + real option tensor \<times> real tensor" where
  "normalize_ord1_last T =
     (if shape T = [] then Inl InvalidArgumentError
      else
        let norm_t = norm_ord1_last T in
        Inr (\<lparr>shape = shape T,
              entry = (\<lambda>idx. tf_div (entry T idx) (entry norm_t (butlast idx @ [0])))\<rparr>,
             norm_t))"

subsection \<open>Python calls\<close>

text \<open>
  The values \<open>main_model\<close> passes to the likelihood, and the binding of positional
  arguments to the parameters of a function that has neither defaults nor \<open>*args\<close>:
  a call with another number of arguments raises TypeError before the body runs (for a
  generator function too: the arguments are bound when the generator is created).
\<close>

datatype py_value = VParams ModelParams | VTensor "real tensor"

definition bind_positional :: "string list \<Rightarrow> 'v list \<Rightarrow> py_error + (string \<times> 'v) list" where
  "bind_positional params args =
     (if length args = length params then Inr (zip params args) else Inl TypeError)"

text \<open>
  \<open>def studentT_likelihood(modelParams, new_cases)\<close> as a callable. The body reads
  attributes of both arguments, so an argument of the other kind raises AttributeError.
\<close>

definition call_studentT_likelihood :: "real tensor \<Rightarrow> py_value list \<Rightarrow> py_error + StudentT" where
  "call_studentT_likelihood sigma_draw args =
     (case bind_positional [''modelParams'', ''new_cases''] args of
        Inl e \<Rightarrow> Inl e
      | Inr env \<Rightarrow>
          (case (map_of env ''modelParams'', map_of env ''new_cases'') of
             (Some (VParams modelParams), Some (VTensor new_cases)) \<Rightarrow>
               studentT_likelihood sigma_draw modelParams new_cases
           | (Some (VTensor _), _) \<Rightarrow> Inl (AttributeError ''num_countries'')
           | _ \<Rightarrow> Inl (AttributeError ''shape'')))"

subsection \<open>main_model\<close>

text \<open>
  The sub-models \<open>main_model\<close> calls are other modules of the package
  (\<open>reproduction_number\<close>, \<open>number_of_tests\<close>, \<open>deaths\<close>, \<open>InfectionModel\<close>, ...) and are
  not part of the sources. Each is a parameter: the value its call gives in one
  evaluation of the model, as a function of the arguments \<open>main_model\<close> passes.
  \<open>C_cholesky\<close> is the value of the \<open>LKJCholesky\<close> variable.
\<close>

record submodels =
  construct_R_0 :: "ModelParams \<Rightarrow> real tensor"
  construct_R_t :: "ModelParams \<Rightarrow> real tensor \<Rightarrow> real tensor"
  C_cholesky :: "real tensor"
  construct_generation_interval :: "nat \<Rightarrow> real tensor \<times> real tensor"
  construct_h_0_t :: "ModelParams \<Rightarrow> nat \<Rightarrow> real tensor \<Rightarrow> real tensor \<Rightarrow> real \<Rightarrow> real tensor"
  InfectionModel ::
    "real tensor \<Rightarrow> real tensor \<Rightarrow> real tensor \<Rightarrow> real option tensor \<Rightarrow> real tensor \<Rightarrow>
       tf_float tensor"
  generate_testing :: "ModelParams \<Rightarrow> tf_float tensor \<Rightarrow> real tensor \<times> real tensor"
  calc_Phi_IFR :: "ModelParams \<Rightarrow> real tensor"
  construct_reporting_delay :: "ModelParams \<Rightarrow> real tensor \<times> real tensor"
  calc_delayed_deaths ::
    "tf_float tensor \<Rightarrow> real tensor \<Rightarrow> real tensor \<Rightarrow> real tensor \<Rightarrow> real tensor"

text \<open>
  Lines 60 to 79: the contact matrix. \<open>C = L L\<^sup>T\<close> is recorded under the name \<open>"C"\<close>,
  then normalized; the norm is discarded (\<open>C, _ = ...\<close>).
\<close>

definition contact_matrix :: "real tensor \<Rightarrow> py_error + real tensor \<times> real option tensor" where
  "contact_matrix L =
     (case einsum_an_bn L L of
        Inl e \<Rightarrow> Inl e
      | Inr C \<Rightarrow>
          (case normalize_ord1_last C of
             Inl e \<Rightarrow> Inl e
           | Inr (C_normalized, _) \<Rightarrow> Inr (C, C_normalized)))"

text \<open>
  \<open>main_model(modelParams)\<close>, for one evaluation. The result is the trace of the
  \<open>Deterministic\<close> variables \<open>main_model\<close> itself declares, up to the point the function
  reached (the values of \<open>"C"\<close> and \<open>"h_0_t"\<close> are numbers), and what the function
  returns or raises. The name \<open>studentT_likelihood\<close>
  reaches model.py through \<open>from covid19_npis.model import *\<close>, so the callee is the
  parameter \<open>likelihood\<close>; it receives the list of positional arguments. The logging
  statement of line 126 evaluates \<open>new_E_t[0,:]\<close>, which needs two axes and a first axis
  that is not empty. The three calls of the weekly modulation (lines 176 to 201) are
  comments in the source.
\<close>

definition main_model ::
  "submodels \<Rightarrow> (py_value list \<Rightarrow> py_error + 'r) \<Rightarrow> ModelParams \<Rightarrow>
     (string \<times> tf_float tensor) list \<times> (py_error + 'r)" where
  "main_model sub likelihood modelParams =
     (let R_0 = construct_R_0 sub modelParams;
          R_t = construct_R_t sub modelParams R_0
      in case contact_matrix (C_cholesky sub) of
           Inl e \<Rightarrow> ([], Inl e)
         | Inr (C, C_normalized) \<Rightarrow>
             let trace1 = [(''C'', tmap Number C)];
                 len_gen_interv_kernel = 12;
                 (gen_kernel, mean_gen_interv) =
                    construct_generation_interval sub len_gen_interv_kernel;
                 h_0_t = construct_h_0_t sub modelParams len_gen_interv_kernel R_t mean_gen_interv 0
             in case einsum_t_ca h_0_t of
                  Inl e \<Rightarrow> (trace1, Inl e)
                | Inr h_0_t_traced \<Rightarrow>
                    let trace2 = trace1 @ [(''h_0_t'', tmap Number h_0_t_traced)];
                        N = N_data_tensor modelParams;
                        new_E_t_raw = InfectionModel sub N h_0_t R_t C_normalized gen_kernel
                    in if length (shape new_E_t_raw) < 2 \<or> hd (shape new_E_t_raw) = 0
                       then (trace2, Inl InvalidArgumentError)
                       else
                         let new_E_t = clip_by_value new_E_t_raw (1 / 10 ^ 7) (10 ^ 9);
                             trace3 = trace2 @ [(''new_E_t'', new_E_t)];
                             (total_tests, positive_tests) =
                                generate_testing sub modelParams new_E_t;
                             death_Phi = calc_Phi_IFR sub modelParams;
                             (death_m, death_theta) = construct_reporting_delay sub modelParams;
                             deaths_delayed =
                                calc_delayed_deaths sub new_E_t death_Phi death_m death_theta
                         in (trace3,
                             likelihood [VParams modelParams, VTensor positive_tests,
                                         VTensor total_tests, VTensor deaths_delayed]))"

text \<open>
  The sub-models give tensors with the axes \<open>main_model\<close> needs: the Cholesky factor has
  its two matrix axes, \<open>h_0_t\<close> has the axes time, country and age group, and the result
  of \<open>InfectionModel\<close> has at least two axes, the first not empty.
\<close>

definition shapes_ok :: "submodels \<Rightarrow> bool" where
  "shapes_ok sub \<longleftrightarrow>
     2 \<le> length (shape (C_cholesky sub))
   \<and> (\<forall>mp l R m d. 3 \<le> length (shape (construct_h_0_t sub mp l R m d)))
   \<and> (\<forall>N h R C g. 2 \<le> length (shape (InfectionModel sub N h R C g))
          \<and> hd (shape (InfectionModel sub N h R C g)) \<noteq> 0)"

text \<open>
  Sub-models for the small data set. The Cholesky factor of the one country is
  \<open>[[1, 0], [-3/5, 4/5]]\<close>: lower triangular, with a positive diagonal and rows of
  Euclidean norm 1, the factor of the correlation matrix \<open>[[1, -3/5], [-3/5, 1]]\<close>.
\<close>

definition example_cholesky :: "real tensor" where
  "example_cholesky =
     \<lparr>shape = [1, 2, 2],
      entry = (\<lambda>idx. if idx = [0, 0, 0] then 1
                     else if idx = [0, 1, 0] then - 3 / 5
                     else if idx = [0, 1, 1] then 4 / 5
                     else 0)\<rparr>"

definition example_infections :: "tf_float tensor" where
  "example_infections =
     \<lparr>shape = [2, 1, 2],
      entry = (\<lambda>idx. if idx = [0, 0, 0] then Number 0
                     else if idx = [0, 0, 1] then Number (10 ^ 10)
                     else Number 50)\<rparr>"

definition number_or_zero :: "tf_float \<Rightarrow> real" where
  "number_or_zero x = (case x of Number r \<Rightarrow> r | _ \<Rightarrow> 0)"

definition example_submodels :: submodels where
  "example_submodels =
     \<lparr>construct_R_0 = (\<lambda>mp. \<lparr>shape = [1, 2], entry = (\<lambda>idx. 2)\<rparr>),
      construct_R_t = (\<lambda>mp R_0. \<lparr>shape = [2, 1, 2], entry = (\<lambda>idx. 2)\<rparr>),
      C_cholesky = example_cholesky,
      construct_generation_interval =
        (\<lambda>l. (\<lparr>shape = [1, l], entry = (\<lambda>idx. 1 / real l)\<rparr>,
              \<lparr>shape = [1, 1], entry = (\<lambda>idx. 4)\<rparr>)),
      construct_h_0_t = (\<lambda>mp l R_t m d. \<lparr>shape = [l, 1, 2], entry = (\<lambda>idx. 10)\<rparr>),
      InfectionModel = (\<lambda>N h_0_t R_t C gen_kernel. example_infections),
      generate_testing =
        (\<lambda>mp E. (tmap (\<lambda>x. 10 * number_or_zero x) E, tmap (\<lambda>x. number_or_zero x / 2) E)),
      calc_Phi_IFR = (\<lambda>mp. \<lparr>shape = [1, 2], entry = (\<lambda>idx. 1 / 100)\<rparr>),
      construct_reporting_delay =
        (\<lambda>mp. (\<lparr>shape = [1, 1], entry = (\<lambda>idx. 20)\<rparr>, \<lparr>shape = [1, 1], entry = (\<lambda>idx. 3)\<rparr>)),
      calc_delayed_deaths = (\<lambda>E Phi m theta. tmap (\<lambda>x. number_or_zero x / 100) E)\<rparr>"

text \<open>
  The same sub-models with an \<open>InfectionModel\<close> whose result has an infinite entry and an
  entry that is NaN.
\<close>

definition example_infections_nan :: "tf_float tensor" where
  "example_infections_nan =
     \<lparr>shape = [2, 1, 2],
      entry = (\<lambda>idx. if idx = [0, 0, 0] then NaN
                     else if idx = [0, 0, 1] then PosInf
                     else if idx = [1, 0, 0] then NegInf
                     else Number 50)\<rparr>"

definition example_submodels_nan :: submodels where
  "example_submodels_nan =
     example_submodels\<lparr>InfectionModel := (\<lambda>N h_0_t R_t C gen_kernel. example_infections_nan)\<rparr>"

section \<open>weekly_modulation.py\<close>

subsection \<open>The names of the module\<close>

text \<open>
  A name that is neither a parameter nor a local of the function is looked up in the
  globals of the module when the statement that reads it runs; NameError when it is
  not bound there (nor a builtin).
\<close>

definition global_name :: "string list \<Rightarrow> string \<Rightarrow> py_error + unit" where
  "global_name G n = (if n \<in> set G then Inr () else Inl (NameError n))"

text \<open>
  The names model.py binds without a leading underscore: what \<open>from .model import *\<close>
  brings. model.py itself starts with \<open>from covid19_npis.model import *\<close>; the
  \<open>__init__\<close> of that package is not part of the sources, so the names it exports are
  the parameter \<open>pkg\<close>.
\<close>

definition model_py_names :: "string list \<Rightarrow> string list" where
  "model_py_names pkg =
     [''logging'', ''pm'', ''tf'', ''np'', ''covid19_npis'', ''transformations''] @ pkg @
     [''LKJCholesky'', ''Deterministic'', ''Gamma'', ''HalfCauchy'', ''Normal'', ''LogNormal'',
      ''convolution_with_varying_kernel'', ''gamma'', ''log'', ''main_model'']"

text \<open>The globals of weekly_modulation.py after its import statements and its one \<open>def\<close>.\<close>

definition weekly_modulation_globals :: "string list \<Rightarrow> string list" where
  "weekly_modulation_globals pkg =
     [''tf'', ''tfp'', ''logging'', ''pm'', ''np''] @ model_py_names pkg @
     [''ut'', ''log'', ''transformations'', ''Normal'', ''LogNormal'', ''Deterministic'',
      ''HalfNormal'', ''Gamma'', ''VonMises'', ''week_modulation'']"

text \<open>The names of the package that model.py uses, so that the package must export them.\<close>

definition package_names_used :: "string list" where
  "package_names_used =
     [''reproduction_number'', ''construct_generation_interval'', ''construct_h_0_t'',
      ''InfectionModel'', ''number_of_tests'', ''deaths'', ''studentT_likelihood'']"

subsection \<open>week_modulation\<close>

text \<open>
  The object the parameter \<open>model\<close> is read for: \<open>sim_begin\<close> (a date, here its proleptic
  Gregorian ordinal as \<open>date.toordinal()\<close> gives it, day 1 being Monday 0001-01-01),
  \<open>sim_shape\<close> and \<open>is_hierarchical\<close>. The default of the parameter is \<open>None\<close>.
\<close>

record sim_model =
  sim_begin :: nat
  sim_shape :: "nat list"
  is_hierarchical :: bool

text \<open>
  The values of the random variables in one evaluation: \<open>weekly_modulation_weight\<close>
  (the \<open>yield\<close> of line 130), the logarithm of the weekend factor (line 142) and the two
  levels of the hierarchical one (line 151; \<open>ut.hierarchical_normal\<close> is not part of the
  sources).
\<close>

record week_draws =
  weekly_modulation_weight :: real
  weekend_factor_log :: "real tensor"
  weekend_factor_L2_log :: "real tensor"
  weekend_factor_L1_log :: "real tensor"

text \<open>
  What the variable \<open>modulation\<close> holds: an array (the Python number 0 is the array of
  shape \<open>[]\<close>) or a generator object. \<open>abs_sine_modulation\<close> has a \<open>yield\<close> in its body, so
  it is a generator function: the call \<open>abs_sine_modulation()\<close> runs none of the body
  and gives a generator object, which is never iterated.
\<close>

datatype modulation_value = Array "real tensor" | Generator

definition scalar :: "real \<Rightarrow> real tensor" where
  "scalar x = \<lparr>shape = [], entry = (\<lambda>idx. x)\<rparr>"

definition np_zeros :: "nat list \<Rightarrow> real tensor" where
  "np_zeros s = \<lparr>shape = s, entry = (\<lambda>idx. 0)\<rparr>"

definition np_ones :: "nat list \<Rightarrow> real tensor" where
  "np_ones s = \<lparr>shape = s, entry = (\<lambda>idx. 1)\<rparr>"

text \<open>\<open>modulation[i] = 1\<close> on an array of one axis.\<close>

definition set_item :: "real tensor \<Rightarrow> nat \<Rightarrow> real \<Rightarrow> real tensor" where
  "set_item T i v = T\<lparr>entry := (\<lambda>idx. if idx = [i] then v else entry T idx)\<rparr>"

text \<open>
  \<open>date.isoweekday()\<close>, Monday 1 to Sunday 7, and the last day a \<open>date\<close> can hold
  (9999-12-31): adding a \<open>timedelta\<close> that leads beyond it raises OverflowError.
\<close>

definition isoweekday :: "nat \<Rightarrow> nat" where
  "isoweekday ordinal = (ordinal + 6) mod 7 + 1"

definition max_ordinal :: nat where
  "max_ordinal = 3652059"

text \<open>
  The loop of \<open>step_modulation\<close> over \<open>range(shape_modulation[0])\<close>. Each round reads the
  global \<open>datetime\<close> (for \<open>datetime.timedelta(days=i)\<close>), which the module does not
  import.
\<close>

fun step_loop ::
  "string list \<Rightarrow> sim_model \<Rightarrow> int list \<Rightarrow> nat list \<Rightarrow> real tensor \<Rightarrow> py_error + real tensor" where
  "step_loop G model weekend_days [] modulation = Inr modulation"
| "step_loop G model weekend_days (i # rest) modulation =
     (case global_name G ''datetime'' of
        Inl e \<Rightarrow> Inl e
      | Inr _ \<Rightarrow>
          if max_ordinal < sim_begin model + i then Inl OverflowError
          else
            let date_curr = sim_begin model + i in
            step_loop G model weekend_days rest
              (if int (isoweekday date_curr) \<in> set weekend_days
               then set_item modulation i 1 else modulation))"

definition step_modulation ::
  "string list \<Rightarrow> sim_model \<Rightarrow> nat list \<Rightarrow> int list \<Rightarrow> py_error + real tensor" where
  "step_modulation G model shape_modulation weekend_days =
     (case shape_modulation of
        [] \<Rightarrow> Inl IndexError
      | n # _ \<Rightarrow> step_loop G model weekend_days [0..<n] (np_zeros [n]))"

text \<open>
  Arithmetic on arrays outside TensorFlow: the same broadcasting, and ValueError for
  shapes that do not fit.
\<close>

definition np_broadcast_op ::
  "('a \<Rightarrow> 'b \<Rightarrow> 'c) \<Rightarrow> 'a tensor \<Rightarrow> 'b tensor \<Rightarrow> py_error + 'c tensor" where
  "np_broadcast_op f A B =
     (case broadcast_op f A B of Inl e \<Rightarrow> Inl ValueError | Inr r \<Rightarrow> Inr r)"

text \<open>
  \<open>tt.shape_padaxis(modulation, axis=-1)\<close> and \<open>weekend_factor * modulation\<close>: a generator
  object is no operand of either (TypeError).
\<close>

definition shape_padaxis_last :: "modulation_value \<Rightarrow> py_error + modulation_value" where
  "shape_padaxis_last m =
     (case m of Array t \<Rightarrow> Inr (Array (newaxis_last t)) | Generator \<Rightarrow> Inl TypeError)"

definition times_modulation :: "real tensor \<Rightarrow> modulation_value \<Rightarrow> py_error + real tensor" where
  "times_modulation weekend_factor m =
     (case m of
        Array t \<Rightarrow> np_broadcast_op (\<lambda>x y. x * y) weekend_factor t
      | Generator \<Rightarrow> Inl TypeError)"

text \<open>
  \<open>week_modulation\<close>, run to its end by the framework, for one evaluation. \<open>G\<close> is the
  globals of the module. The parameters that only name variables or set priors
  (\<open>name\<close>, \<open>modelParams\<close>, \<open>name_weekend_factor\<close>, \<open>name_offset_modulation\<close>,
  \<open>pr_mean_weekend_factor\<close>, \<open>pr_sigma_weekend_factor\<close>) do not enter the value. The
  statements, in order:
  \<^item> line 138, \<open>list(model.sim_shape)\<close>: AttributeError when \<open>model\<close> is \<open>None\<close>;
  \<^item> lines 141 to 164: both branches evaluate \<open>tt.log(pr_mean_weekend_factor)\<close> as an
    argument, the first read of the global \<open>tt\<close>; where \<open>tt\<close> is bound it is taken to
    be the tensor library the docstring names, with \<open>exp\<close>, \<open>abs_\<close> and \<open>shape_padaxis\<close>
    entry by entry;
  \<^item> line 167, the step modulation or 0; line 168 assigns \<open>modulation\<close> again, the
    generator object or 0;
  \<^item> lines 170 to 177, the multiplication, with NumPy broadcasting;
  \<^item> line 179 reads \<open>name_cases\<close>, which is no parameter and no local: a global.
\<close>

definition week_modulation ::
  "string list \<Rightarrow> week_draws \<Rightarrow> real tensor \<Rightarrow> string \<Rightarrow> int list \<Rightarrow> sim_model option \<Rightarrow>
     py_error + real tensor" where
  "week_modulation G draws cases week_modulation_type weekend_days model =
     (case model of
        None \<Rightarrow> Inl (AttributeError ''sim_shape'')
      | Some m \<Rightarrow>
          let shape_modulation = sim_shape m in
          case global_name G ''tt'' of
            Inl e \<Rightarrow> Inl e
          | Inr _ \<Rightarrow>
              let weekend_factor =
                    (if \<not> is_hierarchical m then tmap exp (weekend_factor_log draws)
                     else tmap exp (weekend_factor_L2_log draws))
              in case (if week_modulation_type = ''step''
                       then map_sum id Array (step_modulation G m shape_modulation weekend_days)
                       else Inr (Array (scalar 0))) of
                   Inl e \<Rightarrow> Inl e
                 | Inr modulation_167 \<Rightarrow>
                     let modulation_168 =
                           (if week_modulation_type = ''abs_sine'' then Generator
                            else Array (scalar 0))
                     in case (if is_hierarchical m then shape_padaxis_last modulation_168
                              else Inr modulation_168) of
                          Inl e \<Rightarrow> Inl e
                        | Inr modulation \<Rightarrow>
                            (case times_modulation weekend_factor modulation of
                               Inl e \<Rightarrow> Inl e
                             | Inr wm \<Rightarrow>
                                 (case np_broadcast_op (\<lambda>x y. x - y) (np_ones shape_modulation) wm of
                                    Inl e \<Rightarrow> Inl e
                                  | Inr difference \<Rightarrow>
                                      let multiplication_vec = tmap abs difference in
                                      case np_broadcast_op (\<lambda>x y. x * y) cases multiplication_vec of
                                        Inl e \<Rightarrow> Inl e
                                      | Inr new_cases_inferred_eff \<Rightarrow>
                                          (case global_name G ''name_cases'' of
                                             Inl e \<Rightarrow> Inl e
                                           | Inr _ \<Rightarrow> Inr new_cases_inferred_eff))))"

subsection \<open>A week of cases\<close>

text \<open>
  Seven days from Monday 2020-03-02 (ordinal 737486), 100 cases a day, a weekend factor
  of \<open>3/10\<close>, no hierarchy.
\<close>

definition example_week :: sim_model where
  "example_week = \<lparr>sim_begin = 737486, sim_shape = [7], is_hierarchical = False\<rparr>"

definition example_week_cases :: "real tensor" where
  "example_week_cases = \<lparr>shape = [7], entry = (\<lambda>idx. 100)\<rparr>"

definition example_week_draws :: week_draws where
  "example_week_draws =
     \<lparr>weekly_modulation_weight = 1 / 2,
      weekend_factor_log = scalar (ln (3 / 10)),
      weekend_factor_L2_log = scalar 0,
      weekend_factor_L1_log = scalar 0\<rparr>"

text \<open>
  The globals of the module had the package exported the three names the module reads
  and does not bind: what the function computes once no name is missing.
\<close>

definition all_names_bound :: "string list" where
  "all_names_bound =
     weekly_modulation_globals (package_names_used @ [''tt'', ''datetime'', ''name_cases''])"

section \<open>Properties of get_distribution_by_name\<close>

lemma find_this_dist_named:
  "all_named ds \<Longrightarrow>
   find_this_dist ds name acc =
     Inr (case filter (has_name name) ds of [] \<Rightarrow> acc | _ \<Rightarrow> Some (fst (last (filter (has_name name) ds))))"
proof (induction ds arbitrary: acc)
  case Nil
  then show ?case by simp
next
  case (Cons e ds)
  obtain k v where e: "e = (k, v)" by (cases e)
  from Cons.prems have named: "all_named ds" and kv: "map_of v ''name'' \<noteq> None"
    by (simp_all add: all_named_def e)
  then obtain w where w: "map_of v ''name'' = Some w" by auto
  have hn: "has_name name e \<longleftrightarrow> w = CStr name"
    by (simp add: has_name_def e w)
  show ?case
  proof (cases "w = CStr name")
    case True
    then show ?thesis
      using Cons.IH [OF named, of "Some k"] w hn
      by (simp add: e split: list.splits)
  next
    case False
    then show ?thesis
      using Cons.IH [OF named, of acc] w hn
      by (simp add: e split: list.splits)
  qed
qed

lemma map_of_distinct_mem:
  "distinct (map fst ds) \<Longrightarrow> e \<in> set ds \<Longrightarrow> map_of ds (fst e) = Some (snd e)"
  by (cases e) simp

text \<open>
  C10. In a dict (distinct keys) all of whose entries have a \<open>"name"\<close> field:
  when some entry's \<open>"name"\<close> equals \<open>name\<close>, \<open>get_distribution_by_name\<close> returns the
  configuration of the last such entry; when none does, the call raises
  UnboundLocalError for \<open>this_dist\<close> and returns nothing.
\<close>

theorem get_distribution_by_name_last_or_unbound:
  assumes "distinct (map fst ds)" and "all_named ds"
  shows "(filter (has_name name) ds \<noteq> [] \<longrightarrow>
            get_distribution_by_name ds name = Inr (snd (last (filter (has_name name) ds))))
       \<and> (filter (has_name name) ds = [] \<longrightarrow>
            get_distribution_by_name ds name = Inl (UnboundLocalError ''this_dist''))"
proof (cases "filter (has_name name) ds")
  case Nil
  then show ?thesis
    using find_this_dist_named [OF assms(2), of name None]
    by (simp add: get_distribution_by_name_def)
next
  case (Cons a as)
  let ?e = "last (filter (has_name name) ds)"
  have "?e \<in> set (filter (has_name name) ds)"
    using Cons by (metis last_in_set list.distinct(1))
  then have mem: "?e \<in> set ds" by simp
  have look: "map_of ds (fst ?e) = Some (snd ?e)"
    by (rule map_of_distinct_mem [OF assms(1) mem])
  show ?thesis
    using find_this_dist_named [OF assms(2), of name None] Cons look
    by (simp add: get_distribution_by_name_def)
qed

theorem get_distribution_by_name_witness:
  "distinct (map fst (get_default_dist_config 3 2 10)) \<and> all_named (get_default_dist_config 3 2 10)
   \<and> filter (has_name ''C'') (get_default_dist_config 3 2 10) \<noteq> []
   \<and> get_distribution_by_name (get_default_dist_config 3 2 10) ''C'' =
        Inr [ (''name'', CStr ''C''), (''long_name'', CStr ''Contact matrix''),
              (''shape'', CIntTuple [3, 2, 2]),
              (''shape_label'', CStrTuple [''country'', ''age_group_i'', ''age_group_j'']),
              (''math'', CStr ''C'') ]
   \<and> filter (has_name ''beta'') (get_default_dist_config 3 2 10) = []
   \<and> get_distribution_by_name (get_default_dist_config 3 2 10) ''beta'' =
        Inl (UnboundLocalError ''this_dist'')"
proof -
  have d: "distinct (map fst (get_default_dist_config 3 2 10))"
    by (simp add: get_default_dist_config_def)
  have n: "all_named (get_default_dist_config 3 2 10)"
    by (simp add: get_default_dist_config_def all_named_def)
  have f: "filter (has_name ''C'') (get_default_dist_config 3 2 10) \<noteq> []"
    by (simp add: get_default_dist_config_def has_name_def)
  have g: "filter (has_name ''beta'') (get_default_dist_config 3 2 10) = []"
    by (simp add: get_default_dist_config_def has_name_def)
  have l: "snd (last (filter (has_name ''C'') (get_default_dist_config 3 2 10))) =
        [ (''name'', CStr ''C''), (''long_name'', CStr ''Contact matrix''),
              (''shape'', CIntTuple [3, 2, 2]),
              (''shape_label'', CStrTuple [''country'', ''age_group_i'', ''age_group_j'']),
              (''math'', CStr ''C'') ]"
    by (simp add: get_default_dist_config_def has_name_def)
  show ?thesis
    using get_distribution_by_name_last_or_unbound [OF d n, of "''C''"]
          get_distribution_by_name_last_or_unbound [OF d n, of "''beta''"] d n f g l
    by simp
qed

section \<open>Properties of the tensor operations and of studentT_likelihood\<close>

lemma indices_iff:
  "idx \<in> set (indices s) \<longleftrightarrow> length idx = length s \<and> (\<forall>i<length s. idx ! i < s ! i)"
proof (induction s arbitrary: idx)
  case Nil
  then show ?case by auto
next
  case (Cons n ns)
  show ?case
  proof (cases idx)
    case Nil
    then show ?thesis by auto
  next
    case (Cons i js)
    have "(\<forall>j<Suc (length ns). (i # js) ! j < (n # ns) ! j) \<longleftrightarrow> i < n \<and> (\<forall>j<length ns. js ! j < ns ! j)"
      by (auto simp: less_Suc_eq_0_disj)
    then show ?thesis using Cons Cons.IH [of js] by auto
  qed
qed

lemma distinct_concat_cons:
  "distinct xs \<Longrightarrow> distinct ys \<Longrightarrow> distinct (concat (map (\<lambda>i. map ((#) i) ys) xs))"
  by (induction xs) (auto simp: distinct_map inj_on_def)

lemma distinct_indices: "distinct (indices s)"
  by (induction s) (simp_all add: distinct_concat_cons)

lemma indices3: "idx \<in> set (indices [T, C, A]) \<longleftrightarrow> (\<exists>t c a. idx = [t, c, a] \<and> t < T \<and> c < C \<and> a < A)"
  unfolding indices_iff
  by (auto simp: length_Suc_conv All_less_Suc2)

lemma indices1: "idx \<in> set (indices [B]) \<longleftrightarrow> (\<exists>b. idx = [b] \<and> b < B)"
  unfolding indices_iff
  by (auto simp: length_Suc_conv All_less_Suc2)


lemma boolean_mask_prefix:
  assumes "shape T = bs @ shape msk" and "shape msk \<noteq> []"
  shows "boolean_mask T msk (length bs) =
           Inr \<lparr>shape = bs @ [length (filter (entry msk) (indices (shape msk)))],
                entry = (\<lambda>idx. entry T (take (length bs) idx
                                  @ filter (entry msk) (indices (shape msk)) ! (idx ! length bs)
                                  @ drop (Suc (length bs)) idx))\<rparr>"
  using assms by (simp add: boolean_mask_def Let_def)

lemma bs_cases: "length bs \<le> 1 \<Longrightarrow> bs = [] \<or> (\<exists>B. bs = [B])"
  by (cases bs) (auto simp: length_Suc_conv)

lemma sigma_axes_unbatched:
  "shape sg = [C] \<Longrightarrow> sigma_axes sg = \<lparr>shape = [1, C, 1], entry = (\<lambda>idx. entry sg (tl (butlast idx)))\<rparr>"
  by (simp add: sigma_axes_def newaxis_last_def newaxis_first_def Let_def butlast_tl)

lemma bcast_index_self3:
  "t < T \<Longrightarrow> c < C \<Longrightarrow> a < A \<Longrightarrow> bcast_index [T, C, A] [t, c, a] = [t, c, a]"
  by (auto simp: bcast_index_def)

lemma bcast_index_sigma3:
  "c < C \<Longrightarrow> bcast_index [Suc 0, C, Suc 0] [t, c, a] = [0, c, 0]"
  by (auto simp: bcast_index_def)

lemma likelihood_scale_unbatched:
  assumes "shape nc = [T, C, A]" and "shape sg = [C]"
  shows "\<exists>sc. likelihood_scale (sigma_axes sg) nc = Inr sc \<and> shape sc = [T, C, A] \<and>
           (\<forall>t c a. t < T \<and> c < C \<and> a < A \<longrightarrow> entry sc [t, c, a] =
                map_option (\<lambda>r. entry sg [c] * r + 1) (tf_sqrt (entry nc [t, c, a])))"
proof -
  have bshape: "broadcast_shape [1, C, 1] [T, C, A] = Some [T, C, A]"
    by (simp add: broadcast_shape_def)
  show ?thesis
    using assms bshape
    by (simp add: likelihood_scale_def sigma_axes_unbatched broadcast_op_def tmap_def
          bcast_index_self3 bcast_index_sigma3 option.map_comp comp_def)
qed


lemma sigma_axes_batched:
  "shape sg = [B, C] \<Longrightarrow>
   sigma_axes sg = \<lparr>shape = [B, 1, C, 1], entry = (\<lambda>idx. entry sg [idx ! 0, idx ! 2])\<rparr>"
  by (simp add: sigma_axes_def newaxis_last_def newaxis_first_def Let_def transpose_perm_def
        position_of_def upt_rec eval_nat_numeral)

lemma bcast_index_self4:
  "b < B \<Longrightarrow> t < T \<Longrightarrow> c < C \<Longrightarrow> a < A \<Longrightarrow> bcast_index [B, T, C, A] [b, t, c, a] = [b, t, c, a]"
  by (auto simp: bcast_index_def)

lemma bcast_index_sigma4:
  "b < B \<Longrightarrow> c < C \<Longrightarrow> bcast_index [B, Suc 0, C, Suc 0] [b, t, c, a] = [b, 0, c, 0]"
  by (auto simp: bcast_index_def)

lemma likelihood_scale_batched:
  assumes "shape nc = [B, T, C, A]" and "shape sg = [B, C]"
  shows "\<exists>sc. likelihood_scale (sigma_axes sg) nc = Inr sc \<and> shape sc = [B, T, C, A] \<and>
           (\<forall>b t c a. b < B \<and> t < T \<and> c < C \<and> a < A \<longrightarrow> entry sc [b, t, c, a] =
                map_option (\<lambda>r. entry sg [b, c] * r + 1) (tf_sqrt (entry nc [b, t, c, a])))"
proof -
  have bshape: "broadcast_shape [B, 1, C, 1] [B, T, C, A] = Some [B, T, C, A]"
    by (simp add: broadcast_shape_def)
  show ?thesis
    using assms bshape
    by (simp add: likelihood_scale_def sigma_axes_batched broadcast_op_def tmap_def
          bcast_index_self4 bcast_index_sigma4 option.map_comp comp_def)
qed

lemma likelihood_scale_entries:
  assumes "shape nc = bs @ [T, C, A]" and "shape sg = bs @ [C]" and "length bs \<le> 1"
  shows "\<exists>sc. likelihood_scale (sigma_axes sg) nc = Inr sc \<and> shape sc = bs @ [T, C, A] \<and>
           (\<forall>b t c a. b \<in> set (indices bs) \<and> t < T \<and> c < C \<and> a < A \<longrightarrow>
              entry sc (b @ [t, c, a]) =
                map_option (\<lambda>r. entry sg (b @ [c]) * r + 1) (tf_sqrt (entry nc (b @ [t, c, a]))))"
proof -
  from bs_cases [OF assms(3)] show ?thesis
  proof
    assume "bs = []"
    then show ?thesis
      using likelihood_scale_unbatched [of nc T C A sg] assms by auto
  next
    assume "\<exists>B. bs = [B]"
    then obtain B where B: "bs = [B]" ..
    then show ?thesis
      using likelihood_scale_batched [of nc B T C A sg] assms by (auto simp: indices1)
  qed
qed


lemma mask_positions:
  "filter (entry (tmap (\<lambda>b. \<not> b) (tmap (\<lambda>d. d = None) data))) (indices (shape data)) =
   observed_positions data"
  by (simp add: tmap_def observed_positions_def)

lemma studentT_likelihood_result:
  assumes "shape (data_tensor mp) = [T, C, A]" and "shape nc = bs @ [T, C, A]"
    and "likelihood_scale (sigma_axes sg) nc = Inr sc" and "shape sc = bs @ [T, C, A]"
  shows "studentT_likelihood sg mp nc =
     Inr \<lparr>dist_name = ''like'',
          loc = \<lparr>shape = bs @ [length (observed_positions (data_tensor mp))],
                 entry = (\<lambda>idx. entry nc (take (length bs) idx
                            @ observed_positions (data_tensor mp) ! (idx ! length bs)
                            @ drop (Suc (length bs)) idx))\<rparr>,
          scale = \<lparr>shape = bs @ [length (observed_positions (data_tensor mp))],
                   entry = (\<lambda>idx. entry sc (take (length bs) idx
                            @ observed_positions (data_tensor mp) ! (idx ! length bs)
                            @ drop (Suc (length bs)) idx))\<rparr>,
          df = 4,
          observed = \<lparr>shape = [length (observed_positions (data_tensor mp))],
                      entry = (\<lambda>idx. entry (data_tensor mp)
                                 (observed_positions (data_tensor mp) ! (idx ! 0) @ drop (Suc 0) idx))\<rparr>,
          reinterpreted_batch_ndims = 1\<rparr>"
proof -
  let ?data = "data_tensor mp"
  let ?msk = "tmap (\<lambda>b. \<not> b) (tmap (\<lambda>d. d = None) ?data)"
  have sm: "shape ?msk = [T, C, A]" using assms(1) by (simp add: tmap_def)
  have sel: "filter (entry ?msk) (indices (shape ?msk)) = observed_positions ?data"
    using mask_positions [of ?data] by (simp add: tmap_def)
  have ax: "length (shape nc) - 3 = length bs" "\<not> length (shape nc) < 3"
    using assms(2) by simp_all
  have m1: "boolean_mask nc ?msk (length bs) = Inr \<lparr>shape = bs @ [length (observed_positions ?data)],
                 entry = (\<lambda>idx. entry nc (take (length bs) idx
                            @ observed_positions ?data ! (idx ! length bs)
                            @ drop (Suc (length bs)) idx))\<rparr>"
    using boolean_mask_prefix [of nc bs ?msk] assms(2) sm sel by simp
  have m2: "boolean_mask sc ?msk (length bs) = Inr \<lparr>shape = bs @ [length (observed_positions ?data)],
                 entry = (\<lambda>idx. entry sc (take (length bs) idx
                            @ observed_positions ?data ! (idx ! length bs)
                            @ drop (Suc (length bs)) idx))\<rparr>"
    using boolean_mask_prefix [of sc bs ?msk] assms(4) sm sel by simp
  have m3: "boolean_mask ?data ?msk 0 = Inr \<lparr>shape = [length (observed_positions ?data)],
                      entry = (\<lambda>idx. entry ?data
                                 (observed_positions ?data ! (idx ! 0) @ drop (Suc 0) idx))\<rparr>"
    using boolean_mask_prefix [of ?data "[]" ?msk] assms(1) sm sel by simp
  show ?thesis
    unfolding studentT_likelihood_def Let_def
    by (simp only: ax if_False m1 m2 m3 assms(3) sum.case)
qed

lemma observed_positions_nth:
  assumes "shape data = [T, C, A]" and "k < length (observed_positions data)"
  shows "\<exists>t c a. observed_positions data ! k = [t, c, a] \<and> t < T \<and> c < C \<and> a < A
           \<and> entry data [t, c, a] \<noteq> None"
proof -
  have "observed_positions data ! k \<in> set (observed_positions data)"
    using assms(2) by simp
  then have "observed_positions data ! k \<in> set (indices [T, C, A])"
    and "entry data (observed_positions data ! k) \<noteq> None"
    using assms(1) by (simp_all add: observed_positions_def)
  then show ?thesis by (auto simp: indices3)
qed

lemma observed_positions_set:
  "distinct (observed_positions data) \<and>
   set (observed_positions data) = {idx \<in> set (indices (shape data)). entry data idx \<noteq> None}"
  by (simp add: observed_positions_def distinct_indices)

text \<open>
  C1. With a data tensor of shape (time, country, age group), expected cases of the same
  shape behind at most one batch axis, and one \<open>sigma\<close> per country (and batch element),
  \<open>studentT_likelihood\<close> returns a Student-t distribution whose observed values, locations
  and scales have one entry per observed position that is not NaN, in row-major order:
  entry \<open>k\<close> is the data, the expected cases and the scale tensor
  \<open>sigma * tf.sqrt(new_cases) + 1\<close> at the \<open>k\<close>-th such position. Those positions are
  distinct and are exactly the indices of the data tensor whose entry is not NaN, so a
  NaN entry contributes nothing.
\<close>

theorem studentT_likelihood_masks_exactly_nan:
  assumes "shape (data_tensor mp) = [T, C, A]" and "shape nc = bs @ [T, C, A]"
    and "shape sg = bs @ [C]" and "length bs \<le> 1"
  shows "\<exists>L sc. studentT_likelihood sg mp nc = Inr L
      \<and> likelihood_scale (sigma_axes sg) nc = Inr sc
      \<and> shape (observed L) = [length (observed_positions (data_tensor mp))]
      \<and> shape (loc L) = bs @ [length (observed_positions (data_tensor mp))]
      \<and> shape (scale L) = bs @ [length (observed_positions (data_tensor mp))]
      \<and> (\<forall>k < length (observed_positions (data_tensor mp)).
            entry (observed L) [k] = entry (data_tensor mp) (observed_positions (data_tensor mp) ! k)
          \<and> entry (observed L) [k] \<noteq> None
          \<and> (\<forall>b \<in> set (indices bs).
                entry (loc L) (b @ [k]) = entry nc (b @ observed_positions (data_tensor mp) ! k)
              \<and> entry (scale L) (b @ [k]) = entry sc (b @ observed_positions (data_tensor mp) ! k)))
      \<and> distinct (observed_positions (data_tensor mp))
      \<and> set (observed_positions (data_tensor mp)) =
            {idx \<in> set (indices (shape (data_tensor mp))). entry (data_tensor mp) idx \<noteq> None}"
proof -
  obtain sc where sc: "likelihood_scale (sigma_axes sg) nc = Inr sc" "shape sc = bs @ [T, C, A]"
    using likelihood_scale_entries [OF assms(2,3,4)] by blast
  note res = studentT_likelihood_result [OF assms(1,2) sc]
  have nn: "\<And>k. k < length (observed_positions (data_tensor mp)) \<Longrightarrow>
              entry (data_tensor mp) (observed_positions (data_tensor mp) ! k) \<noteq> None"
    using observed_positions_nth [OF assms(1)] by metis
  have len: "\<And>b. b \<in> set (indices bs) \<Longrightarrow> length b = length bs"
    by (simp add: indices_iff)
  show ?thesis
    using res sc(1) nn observed_positions_set [of "data_tensor mp"]
    by (simp add: len nth_append)
qed


lemma SoftPlus_pos: "0 < SoftPlus x"
  by (simp add: SoftPlus_def ln_gt_zero)

lemma indices_append:
  "b \<in> set (indices bs) \<Longrightarrow> i \<in> set (indices s) \<Longrightarrow> b @ i \<in> set (indices (bs @ s))"
  by (auto simp: indices_iff nth_append)

lemma indices_snoc:
  "idx \<in> set (indices (bs @ [n])) \<Longrightarrow> \<exists>b k. idx = b @ [k] \<and> b \<in> set (indices bs) \<and> k < n"
proof -
  assume a: "idx \<in> set (indices (bs @ [n]))"
  then have len: "length idx = Suc (length bs)"
    and bd: "\<forall>i<Suc (length bs). idx ! i < (bs @ [n]) ! i"
    by (simp_all add: indices_iff)
  then have ne: "idx \<noteq> []" by auto
  let ?b = "butlast idx" and ?k = "last idx"
  have split: "idx = ?b @ [?k]" using ne by simp
  have lb: "length ?b = length bs" using len by simp
  have "\<forall>i<length bs. ?b ! i < bs ! i"
  proof (intro allI impI)
    fix i assume i: "i < length bs"
    then have "idx ! i < (bs @ [n]) ! i" using bd by simp
    then show "?b ! i < bs ! i" using i lb by (simp add: nth_butlast nth_append)
  qed
  then have b: "?b \<in> set (indices bs)" using lb by (simp add: indices_iff)
  have "idx ! length bs < (bs @ [n]) ! length bs" using bd by blast
  moreover have "idx ! length bs = ?k" using len ne by (simp add: last_conv_nth)
  ultimately have "?k < n" by simp
  with split b show ?thesis by blast
qed

lemma studentT_likelihood_term_gen:
  assumes "shape (data_tensor mp) = [T, C, A]" and "shape nc = bs @ [T, C, A]"
    and "shape sg = bs @ [C]" and "length bs \<le> 1"
    and "k < length (observed_positions (data_tensor mp))" and "b \<in> set (indices bs)"
  shows "\<exists>L t c a. studentT_likelihood sg mp nc = Inr L
      \<and> shape (scale L) = bs @ [length (observed_positions (data_tensor mp))]
      \<and> observed_positions (data_tensor mp) ! k = [t, c, a] \<and> t < T \<and> c < C \<and> a < A
      \<and> df L = 4
      \<and> entry (loc L) (b @ [k]) = entry nc (b @ [t, c, a])
      \<and> entry (scale L) (b @ [k]) =
            (if entry nc (b @ [t, c, a]) < 0 then None
             else Some (entry sg (b @ [c]) * sqrt (entry nc (b @ [t, c, a])) + 1))"
proof -
  obtain sc where sc: "likelihood_scale (sigma_axes sg) nc = Inr sc" "shape sc = bs @ [T, C, A]"
    and ent: "\<forall>b t c a. b \<in> set (indices bs) \<and> t < T \<and> c < C \<and> a < A \<longrightarrow>
              entry sc (b @ [t, c, a]) =
                map_option (\<lambda>r. entry sg (b @ [c]) * r + 1) (tf_sqrt (entry nc (b @ [t, c, a])))"
    using likelihood_scale_entries [OF assms(2,3,4)] by blast
  note res = studentT_likelihood_result [OF assms(1,2) sc]
  obtain t c a where P: "observed_positions (data_tensor mp) ! k = [t, c, a]" "t < T" "c < C" "a < A"
    using observed_positions_nth [OF assms(1,5)] by blast
  have len: "length b = length bs" using assms(6) by (simp add: indices_iff)
  have e: "entry sc (b @ [t, c, a]) =
             map_option (\<lambda>r. entry sg (b @ [c]) * r + 1) (tf_sqrt (entry nc (b @ [t, c, a])))"
    using ent assms(6) P by blast
  show ?thesis
    using res P e by (simp add: len nth_append tf_sqrt_def)
qed


text \<open>
  C6 (amended). Every entry of \<open>sigma\<close> under the soft-plus transform is positive, and
  every entry of the scale tensor passed to the Student-t distribution whose expected
  count is not negative is a number and is positive; at a negative expected count the
  entry of the scale tensor is NaN.
\<close>

theorem studentT_scale_positive:
  assumes "shape (data_tensor mp) = [T, C, A]" and "shape nc = bs @ [T, C, A]"
    and "shape u = bs @ [C]" and "length bs \<le> 1"
  shows "(\<forall>idx. 0 < entry (HalfCauchy_sigma u) idx)
       \<and> (\<exists>L. studentT_likelihood (HalfCauchy_sigma u) mp nc = Inr L
             \<and> shape (scale L) = bs @ [length (observed_positions (data_tensor mp))]
             \<and> (\<forall>b \<in> set (indices bs). \<forall>k < length (observed_positions (data_tensor mp)).
                   (0 \<le> entry nc (b @ observed_positions (data_tensor mp) ! k) \<longrightarrow>
                      (\<exists>s. entry (scale L) (b @ [k]) = Some s \<and> 0 < s))
                 \<and> (entry nc (b @ observed_positions (data_tensor mp) ! k) < 0 \<longrightarrow>
                      entry (scale L) (b @ [k]) = None)))"
proof -
  let ?sg = "HalfCauchy_sigma u"
  let ?P = "observed_positions (data_tensor mp)"
  have pos: "\<And>idx. 0 < entry ?sg idx"
    by (simp add: HalfCauchy_sigma_def tmap_def SoftPlus_pos)
  have sh: "shape ?sg = bs @ [C]"
    using assms(3) by (simp add: HalfCauchy_sigma_def tmap_def)
  obtain sc where sc: "likelihood_scale (sigma_axes ?sg) nc = Inr sc" "shape sc = bs @ [T, C, A]"
    using likelihood_scale_entries [OF assms(2) sh assms(4)] by blast
  note res = studentT_likelihood_result [OF assms(1,2) sc]
  then obtain L where L: "studentT_likelihood ?sg mp nc = Inr L"
    and shL: "shape (scale L) = bs @ [length ?P]"
    by simp
  have "(0 \<le> entry nc (b @ ?P ! k) \<longrightarrow> (\<exists>s. entry (scale L) (b @ [k]) = Some s \<and> 0 < s))
      \<and> (entry nc (b @ ?P ! k) < 0 \<longrightarrow> entry (scale L) (b @ [k]) = None)"
    if b: "b \<in> set (indices bs)" and k: "k < length ?P" for b k
  proof -
    from studentT_likelihood_term_gen [OF assms(1,2) sh assms(4) k b] L
    obtain t c a where p: "?P ! k = [t, c, a]"
      and e: "entry (scale L) (b @ [k]) =
            (if entry nc (b @ [t, c, a]) < 0 then None
             else Some (entry ?sg (b @ [c]) * sqrt (entry nc (b @ [t, c, a])) + 1))"
      by auto
    have "0 < entry ?sg (b @ [c]) * sqrt (entry nc (b @ [t, c, a])) + 1"
      if "0 \<le> entry nc (b @ [t, c, a])"
    proof -
      from that pos [of "b @ [c]"]
      have "0 \<le> entry ?sg (b @ [c]) * sqrt (entry nc (b @ [t, c, a]))" by simp
      then show ?thesis by linarith
    qed
    then show ?thesis using e p by auto
  qed
  with L shL pos show ?thesis by blast
qed

lemma example_positions: "observed_positions example_data = [[0, 0, 0], [1, 0, 0], [1, 0, 1]]"
  by (simp add: observed_positions_def example_data_def upt_rec)

theorem studentT_likelihood_masks_witness:
  "shape (data_tensor example_params) = [2, 1, 2] \<and> shape example_cases = [] @ [2, 1, 2]
   \<and> shape example_sigma = [] @ [1] \<and> length ([] :: nat list) \<le> 1
   \<and> entry (data_tensor example_params) [0, 0, 1] = None
   \<and> observed_positions (data_tensor example_params) = [[0, 0, 0], [1, 0, 0], [1, 0, 1]]
   \<and> \<not> isl (studentT_likelihood example_sigma example_params example_cases)
   \<and> shape (observed (projr (studentT_likelihood example_sigma example_params example_cases))) = [3]
   \<and> entry (observed (projr (studentT_likelihood example_sigma example_params example_cases))) [1] = Some 7
   \<and> entry (loc (projr (studentT_likelihood example_sigma example_params example_cases))) [1] = 16"
proof -
  have h: "shape (data_tensor example_params) = [2, 1, 2]" "shape example_cases = [] @ [2, 1, 2]"
    "shape example_sigma = [] @ [1]" "length ([] :: nat list) \<le> 1"
    by (simp_all add: example_params_def example_data_def example_cases_def example_sigma_def)
  have d: "data_tensor example_params = example_data" by (simp add: example_params_def)
  have v: "entry example_data [1, 0, 0] = Some 7" "entry example_cases [1, 0, 0] = 16"
    "entry example_data [0, 0, 1] = None"
    by (simp_all add: example_data_def example_cases_def)
  have p: "observed_positions (data_tensor example_params) = [[0, 0, 0], [1, 0, 0], [1, 0, 1]]"
    by (simp add: d example_positions)
  let ?P = "observed_positions (data_tensor example_params)"
  from studentT_likelihood_masks_exactly_nan [OF h] obtain L sc where
    L: "studentT_likelihood example_sigma example_params example_cases = Inr L"
    and sc: "likelihood_scale (sigma_axes example_sigma) example_cases = Inr sc"
    and so: "shape (observed L) = [length ?P]"
    and en: "\<forall>k < length ?P.
            entry (observed L) [k] = entry (data_tensor example_params) (?P ! k)
          \<and> entry (observed L) [k] \<noteq> None
          \<and> (\<forall>b \<in> set (indices []).
                entry (loc L) (b @ [k]) = entry example_cases (b @ ?P ! k)
              \<and> entry (scale L) (b @ [k]) = entry sc (b @ ?P ! k))"
    by (elim exE conjE) (rule that)
  from en have "entry (observed L) [1] = entry example_data [1, 0, 0]
      \<and> entry (loc L) [1] = entry example_cases [1, 0, 0]"
    by (simp add: d example_positions)
  then show ?thesis
    using h v L so by (simp add: d example_positions)
qed

text \<open>
  C3 (amended). For the \<open>k\<close>-th observed position \<open>[t, c, a]\<close> that is not NaN (and each
  batch element \<open>b\<close>) the Student-t term has 4 degrees of freedom, its location is the
  expected count at \<open>[t, c, a]\<close>, and its scale is the \<open>sigma\<close> of country \<open>c\<close> (the same
  for every time and age group) times the square root of the expected count, plus 1;
  the scale is NaN when the expected count is negative.
\<close>

theorem studentT_likelihood_term:
  assumes "shape (data_tensor mp) = [T, C, A]" and "shape nc = bs @ [T, C, A]"
    and "shape sg = bs @ [C]" and "length bs \<le> 1"
    and "k < length (observed_positions (data_tensor mp))" and "b \<in> set (indices bs)"
  shows "\<exists>L t c a. studentT_likelihood sg mp nc = Inr L
      \<and> observed_positions (data_tensor mp) ! k = [t, c, a] \<and> t < T \<and> c < C \<and> a < A
      \<and> df L = 4
      \<and> entry (loc L) (b @ [k]) = entry nc (b @ [t, c, a])
      \<and> entry (scale L) (b @ [k]) =
            (if entry nc (b @ [t, c, a]) < 0 then None
             else Some (entry sg (b @ [c]) * sqrt (entry nc (b @ [t, c, a])) + 1))"
  using studentT_likelihood_term_gen [OF assms] by blast

lemma example_shapes:
  "shape (data_tensor example_params) = [2, 1, 2]" "shape example_cases = [] @ [2, 1, 2]"
  "shape example_sigma = [] @ [1]" "length ([] :: nat list) \<le> 1"
  by (simp_all add: example_params_def example_data_def example_cases_def example_sigma_def)

lemma example_values:
  "data_tensor example_params = example_data"
  "entry example_data [0, 0, 0] = Some 5"
  "entry example_cases [0, 0, 0] = 4"
  "entry example_sigma [0] = 2"
  by (simp_all add: example_params_def example_data_def example_cases_def example_sigma_def)

lemma example_likelihood:
  "\<not> isl (studentT_likelihood example_sigma example_params example_cases)
   \<and> df (projr (studentT_likelihood example_sigma example_params example_cases)) = 4
   \<and> entry (loc (projr (studentT_likelihood example_sigma example_params example_cases))) [0] = 4
   \<and> entry (scale (projr (studentT_likelihood example_sigma example_params example_cases))) [0] = Some 5"
proof -
  have k: "0 < length (observed_positions (data_tensor example_params))"
    by (simp add: example_values example_positions)
  have b: "[] \<in> set (indices [])" by simp
  from studentT_likelihood_term_gen [OF example_shapes k b]
  show ?thesis
    by (auto simp: example_values example_positions)
qed

theorem studentT_likelihood_term_witness:
  "shape (data_tensor example_params) = [2, 1, 2] \<and> shape example_cases = [] @ [2, 1, 2]
   \<and> shape example_sigma = [] @ [1] \<and> length ([] :: nat list) \<le> 1
   \<and> 0 < length (observed_positions (data_tensor example_params))
   \<and> [] \<in> set (indices [])
   \<and> observed_positions (data_tensor example_params) ! 0 = [0, 0, 0]
   \<and> \<not> entry example_cases [0, 0, 0] < 0
   \<and> \<not> isl (studentT_likelihood example_sigma example_params example_cases)
   \<and> df (projr (studentT_likelihood example_sigma example_params example_cases)) = 4
   \<and> entry (loc (projr (studentT_likelihood example_sigma example_params example_cases))) [0] = 4
   \<and> entry (scale (projr (studentT_likelihood example_sigma example_params example_cases))) [0] = Some 5"
proof -
  have k: "0 < length (observed_positions (data_tensor example_params))"
    by (simp add: example_values example_positions)
  have b: "[] \<in> set (indices [])" by simp
  have p: "observed_positions (data_tensor example_params) ! 0 = [0, 0, 0]"
    by (simp add: example_values example_positions)
  from studentT_likelihood_term [OF example_shapes k b]
  have "\<not> isl (studentT_likelihood example_sigma example_params example_cases)
   \<and> df (projr (studentT_likelihood example_sigma example_params example_cases)) = 4
   \<and> entry (loc (projr (studentT_likelihood example_sigma example_params example_cases))) [0] = 4
   \<and> entry (scale (projr (studentT_likelihood example_sigma example_params example_cases))) [0] = Some 5"
    by (auto simp: example_values example_positions)
  then show ?thesis
    using example_shapes k b p by (simp add: example_values)
qed

text \<open>
  C3 as stated fails: with \<open>sigma = 2\<close> and an expected count of 4 the scale of the term
  is 5, not \<open>2 * sqrt 4 = 4\<close>.
\<close>

theorem studentT_scale_not_sigma_sqrt_counterexample:
  "\<not> isl (studentT_likelihood example_sigma example_params example_cases)
   \<and> observed_positions (data_tensor example_params) ! 0 = [0, 0, 0]
   \<and> entry (data_tensor example_params) [0, 0, 0] = Some 5
   \<and> entry example_sigma [0] = 2
   \<and> entry example_cases [0, 0, 0] = 4
   \<and> entry example_sigma [0] * sqrt (entry example_cases [0, 0, 0]) = 4
   \<and> entry (scale (projr (studentT_likelihood example_sigma example_params example_cases))) [0] = Some 5
   \<and> entry (scale (projr (studentT_likelihood example_sigma example_params example_cases))) [0]
        \<noteq> Some (entry example_sigma [0] * sqrt (entry example_cases [0, 0, 0]))"
  using example_likelihood
  by (simp add: example_values example_positions)


lemma example_negative_shapes:
  "shape example_cases_negative = [] @ [2, 1, 2]"
  "shape example_unconstrained = [] @ [1]"
  "shape (HalfCauchy_sigma example_unconstrained) = [] @ [1]"
  by (simp_all add: example_cases_negative_def example_unconstrained_def HalfCauchy_sigma_def
        tmap_def)

lemma example_negative_values:
  "entry example_cases_negative [0, 0, 0] = - 1"
  "entry example_cases_negative [1, 0, 0] = 4"
  by (simp_all add: example_cases_negative_def)

lemma example_negative_scale:
  "\<not> isl (studentT_likelihood (HalfCauchy_sigma example_unconstrained) example_params
            example_cases_negative)
 \<and> shape (scale (projr (studentT_likelihood (HalfCauchy_sigma example_unconstrained)
            example_params example_cases_negative))) = [3]
 \<and> entry (scale (projr (studentT_likelihood (HalfCauchy_sigma example_unconstrained)
            example_params example_cases_negative))) [0] = None"
proof -
  have k: "0 < length (observed_positions (data_tensor example_params))"
    by (simp add: example_values example_positions)
  have b: "[] \<in> set (indices [])" by simp
  from studentT_likelihood_term_gen
         [OF example_shapes(1) example_negative_shapes(1,3) example_shapes(4) k b]
  show ?thesis
    by (auto simp: example_values example_positions example_negative_values)
qed

text \<open>
  C6 as stated fails: with an expected count of \<open>-1\<close> at an observed position the entry
  of the scale tensor passed to the Student-t distribution is NaN, though \<open>sigma\<close> is
  positive.
\<close>

theorem studentT_scale_nan_counterexample:
  "shape (data_tensor example_params) = [2, 1, 2] \<and> shape example_cases_negative = [2, 1, 2]
 \<and> shape (HalfCauchy_sigma example_unconstrained) = [1]
 \<and> observed_positions (data_tensor example_params) ! 0 = [0, 0, 0]
 \<and> entry example_cases_negative [0, 0, 0] = - 1
 \<and> 0 < entry (HalfCauchy_sigma example_unconstrained) [0]
 \<and> \<not> isl (studentT_likelihood (HalfCauchy_sigma example_unconstrained) example_params
            example_cases_negative)
 \<and> [0] \<in> set (indices (shape (scale (projr (studentT_likelihood
            (HalfCauchy_sigma example_unconstrained) example_params example_cases_negative)))))
 \<and> entry (scale (projr (studentT_likelihood (HalfCauchy_sigma example_unconstrained)
            example_params example_cases_negative))) [0] = None"
proof -
  have "0 < entry (HalfCauchy_sigma example_unconstrained) [0]"
    by (simp add: HalfCauchy_sigma_def tmap_def SoftPlus_pos)
  then show ?thesis
    using example_negative_scale example_shapes(1) example_negative_shapes example_negative_values
    by (simp add: example_values example_positions)
qed

theorem studentT_scale_positive_witness:
  "shape (data_tensor example_params) = [2, 1, 2] \<and> shape example_cases_negative = [] @ [2, 1, 2]
 \<and> shape example_unconstrained = [] @ [1] \<and> length ([] :: nat list) \<le> 1
 \<and> [] \<in> set (indices [])
 \<and> 1 < length (observed_positions (data_tensor example_params))
 \<and> observed_positions (data_tensor example_params) ! 0 = [0, 0, 0]
 \<and> observed_positions (data_tensor example_params) ! 1 = [1, 0, 0]
 \<and> entry example_cases_negative [0, 0, 0] < 0
 \<and> 0 \<le> entry example_cases_negative [1, 0, 0]
 \<and> 0 < entry (HalfCauchy_sigma example_unconstrained) [0]
 \<and> \<not> isl (studentT_likelihood (HalfCauchy_sigma example_unconstrained) example_params
            example_cases_negative)
 \<and> entry (scale (projr (studentT_likelihood (HalfCauchy_sigma example_unconstrained)
            example_params example_cases_negative))) [0] = None
 \<and> (\<exists>s. entry (scale (projr (studentT_likelihood (HalfCauchy_sigma example_unconstrained)
            example_params example_cases_negative))) [1] = Some s \<and> 0 < s)"
proof -
  let ?sg = "HalfCauchy_sigma example_unconstrained"
  let ?P = "observed_positions (data_tensor example_params)"
  have p: "1 < length ?P" "0 < length ?P" "?P ! 0 = [0, 0, 0]" "?P ! 1 = [1, 0, 0]"
    by (simp_all add: example_values example_positions)
  have b: "[] \<in> set (indices [])" by simp
  from studentT_scale_positive
         [OF example_shapes(1) example_negative_shapes(1,2) example_shapes(4)]
  obtain L where sg: "\<forall>idx. 0 < entry ?sg idx"
    and L: "studentT_likelihood ?sg example_params example_cases_negative = Inr L"
    and en: "\<forall>b \<in> set (indices []). \<forall>k < length ?P.
                   (0 \<le> entry example_cases_negative (b @ ?P ! k) \<longrightarrow>
                      (\<exists>s. entry (scale L) (b @ [k]) = Some s \<and> 0 < s))
                 \<and> (entry example_cases_negative (b @ ?P ! k) < 0 \<longrightarrow>
                      entry (scale L) (b @ [k]) = None)"
    by (elim exE conjE) (rule that)
  from en [rule_format, OF b p(2)] en [rule_format, OF b p(1)]
  have "entry (scale L) [0] = None" and "\<exists>s. entry (scale L) [1] = Some s \<and> 0 < s"
    by (simp_all add: example_values example_positions example_cases_negative_def)
  then show ?thesis
    using example_shapes(1,4) example_negative_shapes example_negative_values p b sg L
    by simp
qed

section \<open>Properties of main_model\<close>

lemma broadcast_rev_same: "broadcast_rev xs xs = Some xs"
  by (induction xs) simp_all

lemma broadcast_shape_same: "broadcast_shape p p = Some p"
  by (simp add: broadcast_shape_def broadcast_rev_same)

lemma bcast_index_same:
  assumes "idx \<in> set (indices s)"
  shows "bcast_index s idx = idx"
proof -
  from assms have len: "length idx = length s" and bd: "\<forall>i<length s. idx ! i < s ! i"
    by (simp_all add: indices_iff)
  show ?thesis
    unfolding bcast_index_def
    by (rule nth_equalityI) (use len bd in \<open>auto simp: less_Suc_eq_0_disj\<close>)
qed

lemma einsum_same:
  assumes "shape L = pre @ [A, N]"
  shows "einsum_an_bn L L =
     Inr \<lparr>shape = pre @ [A, A],
          entry = (\<lambda>idx. (\<Sum>n\<leftarrow>[0..<N].
                     entry L (bcast_index pre (take (length pre) idx) @ [idx ! length pre, n])
                   * entry L (bcast_index pre (take (length pre) idx) @ [idx ! Suc (length pre), n])))\<rparr>"
  using assms
  by (simp add: einsum_an_bn_def Let_def broadcast_shape_same butlast_append)

lemma contact_matrix_rank:
  assumes "2 \<le> length (shape L)"
  shows "\<exists>C Cn. contact_matrix L = Inr (C, Cn)"
proof -
  let ?s = "shape L"
  from assms have ne: "?s \<noteq> []" and ne2: "butlast ?s \<noteq> []"
    by (auto simp: butlast_conv_take)
  have "?s = butlast ?s @ [last ?s]" using ne by simp
  also have "butlast ?s = butlast (butlast ?s) @ [last (butlast ?s)]" using ne2 by simp
  finally have "shape L = butlast (butlast ?s) @ [last (butlast ?s), last ?s]" by simp
  then show ?thesis
    by (simp add: contact_matrix_def einsum_same normalize_ord1_last_def Let_def)
qed


lemma example_shapes_ok: "shapes_ok example_submodels"
  by (simp add: shapes_ok_def example_submodels_def example_cholesky_def example_infections_def)

lemma example_nan_shapes_ok: "shapes_ok example_submodels_nan"
  by (simp add: shapes_ok_def example_submodels_nan_def example_submodels_def
        example_cholesky_def example_infections_nan_def)

lemma clip_by_value_entry:
  assumes "lo \<le> hi"
  shows "(entry t idx = NaN \<and> entry (clip_by_value t lo hi) idx = NaN)
       \<or> (entry t idx \<noteq> NaN
            \<and> (\<exists>x. entry (clip_by_value t lo hi) idx = Number x \<and> lo \<le> x \<and> x \<le> hi))"
  using assms by (cases "entry t idx") (simp_all add: clip_by_value_def tmap_def)

lemma main_model_shapes_ok:
  assumes "shapes_ok sub"
  shows "\<exists>C Cn h.
     contact_matrix (C_cholesky sub) = Inr (C, Cn)
   \<and> einsum_t_ca (construct_h_0_t sub mp 12 (construct_R_t sub mp (construct_R_0 sub mp))
          (snd (construct_generation_interval sub 12)) 0) = Inr h
   \<and> main_model sub likelihood mp =
       (let E = clip_by_value
                  (InfectionModel sub (N_data_tensor mp)
                     (construct_h_0_t sub mp 12 (construct_R_t sub mp (construct_R_0 sub mp))
                        (snd (construct_generation_interval sub 12)) 0)
                     (construct_R_t sub mp (construct_R_0 sub mp)) Cn
                     (fst (construct_generation_interval sub 12)))
                  (1 / 10 ^ 7) (10 ^ 9)
        in ([(''C'', tmap Number C), (''h_0_t'', tmap Number h), (''new_E_t'', E)],
            likelihood [VParams mp,
                        VTensor (snd (generate_testing sub mp E)),
                        VTensor (fst (generate_testing sub mp E)),
                        VTensor (calc_delayed_deaths sub E (calc_Phi_IFR sub mp)
                                   (fst (construct_reporting_delay sub mp))
                                   (snd (construct_reporting_delay sub mp)))]))"
proof -
  from assms have c: "2 \<le> length (shape (C_cholesky sub))"
    and h: "\<And>mp l R m d. 3 \<le> length (shape (construct_h_0_t sub mp l R m d))"
    and e: "\<And>N h R C g. \<not> (length (shape (InfectionModel sub N h R C g)) < 2
          \<or> hd (shape (InfectionModel sub N h R C g)) = 0)"
    by (auto simp: shapes_ok_def not_less)
  obtain C Cn where cm: "contact_matrix (C_cholesky sub) = Inr (C, Cn)"
    using contact_matrix_rank [OF c] by blast
  have eh: "\<And>X. 3 \<le> length (shape X) \<Longrightarrow> \<exists>h. einsum_t_ca X = Inr h"
    by (simp add: einsum_t_ca_def Let_def)
  obtain hh where hh: "einsum_t_ca (construct_h_0_t sub mp 12 (construct_R_t sub mp (construct_R_0 sub mp))
          (snd (construct_generation_interval sub 12)) 0) = Inr hh"
    using eh [OF h] by blast
  show ?thesis
    using cm hh e
    by (simp add: main_model_def Let_def split_beta)
qed


lemma main_model_trace_new_E_t:
  assumes "map_of (fst (main_model sub likelihood mp)) ''new_E_t'' = Some E"
  shows "\<exists>h R Cn g. E = clip_by_value (InfectionModel sub (N_data_tensor mp) h R Cn g)
                          (1 / 10 ^ 7) (10 ^ 9)"
  using assms
  by (auto simp: main_model_def Let_def split_beta split: sum.splits if_splits)

text \<open>
  C4 (amended). When the sub-models give tensors with the axes \<open>main_model\<close> needs, the
  trace has a value under the name \<open>"new_E_t"\<close>; and whenever it has one, it is the
  clipped result of \<open>InfectionModel\<close>, and every entry of it is either NaN, where the
  result of \<open>InfectionModel\<close> is NaN, or a number in the closed interval from \<open>1e-7\<close> to
  \<open>1e9\<close>, hence positive and finite, also where the result of \<open>InfectionModel\<close> is
  infinite.
\<close>

theorem new_E_t_within_clip_range:
  "(shapes_ok sub \<longrightarrow> map_of (fst (main_model sub likelihood mp)) ''new_E_t'' \<noteq> None)
 \<and> (\<forall>E. map_of (fst (main_model sub likelihood mp)) ''new_E_t'' = Some E \<longrightarrow>
        (\<exists>h R Cn g.
            E = clip_by_value (InfectionModel sub (N_data_tensor mp) h R Cn g) (1 / 10 ^ 7) (10 ^ 9)
          \<and> (\<forall>idx \<in> set (indices (shape E)).
                (entry (InfectionModel sub (N_data_tensor mp) h R Cn g) idx = NaN
                   \<and> entry E idx = NaN)
              \<or> (entry (InfectionModel sub (N_data_tensor mp) h R Cn g) idx \<noteq> NaN
                   \<and> (\<exists>x. entry E idx = Number x
                           \<and> 1 / 10 ^ 7 \<le> x \<and> x \<le> 10 ^ 9 \<and> 0 < x)))))"
proof (intro conjI impI allI)
  assume "shapes_ok sub"
  from main_model_shapes_ok [OF this, of mp likelihood]
  show "map_of (fst (main_model sub likelihood mp)) ''new_E_t'' \<noteq> None"
    by (auto simp: Let_def)
next
  fix E
  assume "map_of (fst (main_model sub likelihood mp)) ''new_E_t'' = Some E"
  then obtain h R Cn g where
    E: "E = clip_by_value (InfectionModel sub (N_data_tensor mp) h R Cn g) (1 / 10 ^ 7) (10 ^ 9)"
    using main_model_trace_new_E_t by blast
  let ?raw = "InfectionModel sub (N_data_tensor mp) h R Cn g"
  have r: "(1 / 10 ^ 7 :: real) \<le> 10 ^ 9" by simp
  have "(entry ?raw idx = NaN \<and> entry E idx = NaN)
      \<or> (entry ?raw idx \<noteq> NaN
           \<and> (\<exists>x. entry E idx = Number x \<and> 1 / 10 ^ 7 \<le> x \<and> x \<le> 10 ^ 9 \<and> 0 < x))" for idx
  proof -
    from clip_by_value_entry [OF r, of ?raw idx]
    show ?thesis
    proof
      assume "entry ?raw idx = NaN \<and> entry (clip_by_value ?raw (1 / 10 ^ 7) (10 ^ 9)) idx = NaN"
      then show ?thesis using E by simp
    next
      assume a: "entry ?raw idx \<noteq> NaN
            \<and> (\<exists>x. entry (clip_by_value ?raw (1 / 10 ^ 7) (10 ^ 9)) idx = Number x
                    \<and> 1 / 10 ^ 7 \<le> x \<and> x \<le> 10 ^ 9)"
      then obtain x where x: "entry E idx = Number x" "1 / 10 ^ 7 \<le> x" "x \<le> 10 ^ 9"
        using E by auto
      have "(0 :: real) < 1 / 10 ^ 7" by simp
      with x(2) have "0 < x" by linarith
      with a x show ?thesis by blast
    qed
  qed
  with E show "\<exists>h R Cn g.
            E = clip_by_value (InfectionModel sub (N_data_tensor mp) h R Cn g) (1 / 10 ^ 7) (10 ^ 9)
          \<and> (\<forall>idx \<in> set (indices (shape E)).
                (entry (InfectionModel sub (N_data_tensor mp) h R Cn g) idx = NaN
                   \<and> entry E idx = NaN)
              \<or> (entry (InfectionModel sub (N_data_tensor mp) h R Cn g) idx \<noteq> NaN
                   \<and> (\<exists>x. entry E idx = Number x
                           \<and> 1 / 10 ^ 7 \<le> x \<and> x \<le> 10 ^ 9 \<and> 0 < x)))"
    by blast
qed

text \<open>
  C7. Whatever the callee \<open>likelihood\<close> is, \<open>main_model\<close> ends with its call on
  \<open>modelParams\<close> and the three tensors as \<open>generate_testing\<close> (total and positive
  tests) and \<open>calc_delayed_deaths\<close> returned them for the clipped \<open>new_E_t\<close> of the trace:
  nothing is applied to them in between, and the trace \<open>main_model\<close> writes has the three
  names \<open>"C"\<close>, \<open>"h_0_t"\<close> and \<open>"new_E_t"\<close> only, none of a modulated tensor.
\<close>

theorem weekly_modulation_disabled:
  assumes "shapes_ok sub"
  shows "\<exists>E. map_of (fst (main_model sub likelihood mp)) ''new_E_t'' = Some E
     \<and> snd (main_model sub likelihood mp) =
         likelihood [VParams mp,
                     VTensor (snd (generate_testing sub mp E)),
                     VTensor (fst (generate_testing sub mp E)),
                     VTensor (calc_delayed_deaths sub E (calc_Phi_IFR sub mp)
                                (fst (construct_reporting_delay sub mp))
                                (snd (construct_reporting_delay sub mp)))]
     \<and> map fst (fst (main_model sub likelihood mp)) = [''C'', ''h_0_t'', ''new_E_t'']"
  using main_model_shapes_ok [OF assms, of mp likelihood]
  by (auto simp: Let_def)

lemma call_studentT_likelihood_four:
  "call_studentT_likelihood sg [a, b, c, d] = Inl TypeError"
  by (simp add: call_studentT_likelihood_def bind_positional_def)

lemma main_model_studentT_isl:
  "isl (snd (main_model sub (call_studentT_likelihood sg) mp))"
  by (simp add: main_model_def Let_def split_beta call_studentT_likelihood_four
        split: sum.splits prod.splits)

text \<open>
  C2. With the \<open>studentT_likelihood\<close> of likelihood.py as the callee, \<open>main_model\<close> never
  returns a likelihood: the call passes four positional arguments to a function of two
  parameters. On the small data set the result is TypeError.
\<close>

theorem main_model_likelihood_call_raises:
  "(\<forall>sub sg mp. isl (snd (main_model sub (call_studentT_likelihood sg) mp)))
 \<and> snd (main_model example_submodels (call_studentT_likelihood example_sigma) example_params)
      = Inl TypeError"
proof -
  from main_model_shapes_ok [OF example_shapes_ok, of example_params "call_studentT_likelihood example_sigma"]
  have "snd (main_model example_submodels (call_studentT_likelihood example_sigma) example_params)
      = Inl TypeError"
    by (auto simp: Let_def call_studentT_likelihood_four)
  then show ?thesis using main_model_studentT_isl by blast
qed


lemma sum_list_abs_ge_member:
  fixes f :: "nat \<Rightarrow> real"
  shows "a < A \<Longrightarrow> \<bar>f a\<bar> \<le> (\<Sum>b\<leftarrow>[0..<A]. \<bar>f b\<bar>)"
proof (induction A)
  case 0
  then show ?case by simp
next
  case (Suc A)
  have nn: "0 \<le> (\<Sum>b\<leftarrow>[0..<A]. \<bar>f b\<bar>)" by (rule sum_list_nonneg) auto
  show ?case
  proof (cases "a = A")
    case True
    then show ?thesis using nn by simp
  next
    case False
    then have "a < A" using Suc.prems by simp
    from Suc.IH [OF this] show ?thesis by simp
  qed
qed

lemma sum_list_squares_pos:
  fixes f :: "nat \<Rightarrow> real"
  assumes "n < N" and "f n \<noteq> 0"
  shows "0 < (\<Sum>n\<leftarrow>[0..<N]. f n * f n)"
proof -
  have "\<bar>f n * f n\<bar> \<le> (\<Sum>n\<leftarrow>[0..<N]. \<bar>f n * f n\<bar>)"
    by (rule sum_list_abs_ge_member [OF assms(1)])
  moreover have "0 < \<bar>f n * f n\<bar>" using assms(2) by (auto simp: zero_less_mult_iff)
  moreover have "(\<Sum>n\<leftarrow>[0..<N]. \<bar>f n * f n\<bar>) = (\<Sum>n\<leftarrow>[0..<N]. f n * f n)"
    by (simp add: abs_mult_self_eq)
  ultimately show ?thesis by simp
qed

lemma sum_list_divide_const:
  fixes f :: "nat \<Rightarrow> real"
  shows "(\<Sum>x\<leftarrow>xs. f x / c) = (\<Sum>x\<leftarrow>xs. f x) / c"
  by (induction xs) (simp_all add: add_divide_distrib)

lemma contact_matrix_entries:
  assumes "shape L = pre @ [A, N]"
  shows "\<exists>C Cn. contact_matrix L = Inr (C, Cn) \<and> shape C = pre @ [A, A] \<and> shape Cn = pre @ [A, A]
     \<and> (\<forall>p a b. p \<in> set (indices pre) \<longrightarrow>
           entry C (p @ [a, b]) = (\<Sum>n\<leftarrow>[0..<N]. entry L (p @ [a, n]) * entry L (p @ [b, n]))
         \<and> entry Cn (p @ [a, b]) =
             tf_div (entry C (p @ [a, b])) (\<Sum>j\<leftarrow>[0..<A]. \<bar>entry C (p @ [a, j])\<bar>))"
proof -
  have len: "\<And>p. p \<in> set (indices pre) \<Longrightarrow> length p = length pre"
    by (simp add: indices_iff)
  show ?thesis
    using assms
    by (simp add: contact_matrix_def einsum_same normalize_ord1_last_def norm_ord1_last_def
          Let_def len bcast_index_same nth_append butlast_append)
qed


text \<open>
  C5 (amended). For a factor \<open>L\<close> none of whose rows is zero (a Cholesky factor of a
  correlation matrix has rows of norm 1), the contact matrix is defined and the
  absolute values of every row of the normalized matrix sum to 1; a row whose entries
  are not negative sums to 1 itself.
\<close>

theorem contact_matrix_rows_abs_sum_one:
  assumes "shape L = pre @ [A, N]"
    and "\<forall>p \<in> set (indices pre). \<forall>a < A. \<exists>n < N. entry L (p @ [a, n]) \<noteq> 0"
  shows "\<exists>C Cn. contact_matrix L = Inr (C, Cn) \<and> shape Cn = pre @ [A, A]
     \<and> (\<forall>p \<in> set (indices pre). \<forall>a < A.
           \<exists>row. map (\<lambda>b. entry Cn (p @ [a, b])) [0..<A] = map Some row
               \<and> (\<Sum>x\<leftarrow>row. \<bar>x\<bar>) = 1
               \<and> ((\<forall>x \<in> set row. 0 \<le> x) \<longrightarrow> sum_list row = 1))"
proof -
  from contact_matrix_entries [OF assms(1)] obtain C Cn where
    cm: "contact_matrix L = Inr (C, Cn)" and sh: "shape Cn = pre @ [A, A]"
    and ent: "\<And>p a b. p \<in> set (indices pre) \<Longrightarrow>
           entry C (p @ [a, b]) = (\<Sum>n\<leftarrow>[0..<N]. entry L (p @ [a, n]) * entry L (p @ [b, n]))
         \<and> entry Cn (p @ [a, b]) =
             tf_div (entry C (p @ [a, b])) (\<Sum>j\<leftarrow>[0..<A]. \<bar>entry C (p @ [a, j])\<bar>)"
    by blast
  have rows: "\<exists>row. map (\<lambda>b. entry Cn (p @ [a, b])) [0..<A] = map Some row
               \<and> (\<Sum>x\<leftarrow>row. \<bar>x\<bar>) = 1
               \<and> ((\<forall>x \<in> set row. 0 \<le> x) \<longrightarrow> sum_list row = 1)"
    if p: "p \<in> set (indices pre)" and a: "a < A" for p a
  proof -
    let ?nrm = "\<Sum>j\<leftarrow>[0..<A]. \<bar>entry C (p @ [a, j])\<bar>"
    let ?row = "map (\<lambda>b. entry C (p @ [a, b]) / ?nrm) [0..<A]"
    from assms(2) p a obtain n where n: "n < N" "entry L (p @ [a, n]) \<noteq> 0" by blast
    have "0 < (\<Sum>n\<leftarrow>[0..<N]. entry L (p @ [a, n]) * entry L (p @ [a, n]))"
      using sum_list_squares_pos [of n N "\<lambda>n. entry L (p @ [a, n])"] n by simp
    then have diag: "0 < entry C (p @ [a, a])" using ent [OF p] by simp
    have "\<bar>entry C (p @ [a, a])\<bar> \<le> ?nrm"
      using sum_list_abs_ge_member [of a A "\<lambda>b. entry C (p @ [a, b])"] a by simp
    with diag have pos: "0 < ?nrm" by linarith
    have m: "map (\<lambda>b. entry Cn (p @ [a, b])) [0..<A] = map Some ?row"
      using pos ent [OF p] by (simp add: tf_div_def)
    have "(\<Sum>x\<leftarrow>?row. \<bar>x\<bar>) = (\<Sum>b\<leftarrow>[0..<A]. \<bar>entry C (p @ [a, b])\<bar> / ?nrm)"
      using pos by (simp add: comp_def abs_divide del: upt.simps)
    also have "\<dots> = ?nrm / ?nrm" by (rule sum_list_divide_const)
    also have "\<dots> = 1" using pos by simp
    finally have one: "(\<Sum>x\<leftarrow>?row. \<bar>x\<bar>) = 1" .
    have "sum_list ?row = 1" if "\<forall>x \<in> set ?row. 0 \<le> x"
    proof -
      have "map abs ?row = ?row"
      proof (rule map_idI)
        fix x assume "x \<in> set ?row"
        with that have "0 \<le> x" by blast
        then show "\<bar>x\<bar> = x" by simp
      qed
      then show ?thesis using one by (simp only:)
    qed
    with m one show ?thesis by blast
  qed
  with cm sh show ?thesis by blast
qed

lemma example_model_eval:
  "\<exists>C h. main_model example_submodels likelihood example_params =
     ([(''C'', C), (''h_0_t'', h),
       (''new_E_t'', clip_by_value example_infections (1 / 10 ^ 7) (10 ^ 9))],
      likelihood [VParams example_params,
         VTensor (tmap (\<lambda>x. number_or_zero x / 2)
                    (clip_by_value example_infections (1 / 10 ^ 7) (10 ^ 9))),
         VTensor (tmap (\<lambda>x. 10 * number_or_zero x)
                    (clip_by_value example_infections (1 / 10 ^ 7) (10 ^ 9))),
         VTensor (tmap (\<lambda>x. number_or_zero x / 100)
                    (clip_by_value example_infections (1 / 10 ^ 7) (10 ^ 9)))])"
proof -
  from main_model_shapes_ok [OF example_shapes_ok, of example_params likelihood]
  obtain C Cn h where
    "main_model example_submodels likelihood example_params =
       (let E = clip_by_value
                  (InfectionModel example_submodels (N_data_tensor example_params)
                     (construct_h_0_t example_submodels example_params 12
                        (construct_R_t example_submodels example_params
                           (construct_R_0 example_submodels example_params))
                        (snd (construct_generation_interval example_submodels 12)) 0)
                     (construct_R_t example_submodels example_params
                        (construct_R_0 example_submodels example_params)) Cn
                     (fst (construct_generation_interval example_submodels 12)))
                  (1 / 10 ^ 7) (10 ^ 9)
        in ([(''C'', tmap Number C), (''h_0_t'', tmap Number h), (''new_E_t'', E)],
            likelihood [VParams example_params,
                        VTensor (snd (generate_testing example_submodels example_params E)),
                        VTensor (fst (generate_testing example_submodels example_params E)),
                        VTensor (calc_delayed_deaths example_submodels E
                                   (calc_Phi_IFR example_submodels example_params)
                                   (fst (construct_reporting_delay example_submodels example_params))
                                   (snd (construct_reporting_delay example_submodels example_params)))]))"
    by (elim exE conjE) (rule that)
  then show ?thesis
    by (simp add: example_submodels_def Let_def)
qed

lemma example_nan_trace:
  "map_of (fst (main_model example_submodels_nan likelihood example_params)) ''new_E_t''
     = Some (clip_by_value example_infections_nan (1 / 10 ^ 7) (10 ^ 9))"
proof -
  from main_model_shapes_ok [OF example_nan_shapes_ok, of example_params likelihood]
  obtain C Cn h where
    "main_model example_submodels_nan likelihood example_params =
       (let E = clip_by_value
                  (InfectionModel example_submodels_nan (N_data_tensor example_params)
                     (construct_h_0_t example_submodels_nan example_params 12
                        (construct_R_t example_submodels_nan example_params
                           (construct_R_0 example_submodels_nan example_params))
                        (snd (construct_generation_interval example_submodels_nan 12)) 0)
                     (construct_R_t example_submodels_nan example_params
                        (construct_R_0 example_submodels_nan example_params)) Cn
                     (fst (construct_generation_interval example_submodels_nan 12)))
                  (1 / 10 ^ 7) (10 ^ 9)
        in ([(''C'', tmap Number C), (''h_0_t'', tmap Number h), (''new_E_t'', E)],
            likelihood [VParams example_params,
                        VTensor (snd (generate_testing example_submodels_nan example_params E)),
                        VTensor (fst (generate_testing example_submodels_nan example_params E)),
                        VTensor (calc_delayed_deaths example_submodels_nan E
                                   (calc_Phi_IFR example_submodels_nan example_params)
                                   (fst (construct_reporting_delay example_submodels_nan example_params))
                                   (snd (construct_reporting_delay example_submodels_nan example_params)))]))"
    by (elim exE conjE) (rule that)
  then show ?thesis
    by (simp add: example_submodels_nan_def Let_def)
qed

lemma clip_by_value_simps:
  "shape (clip_by_value t lo hi) = shape t"
  "entry (clip_by_value t lo hi) idx = tf_maximum (tf_minimum (entry t idx) hi) lo"
  by (simp_all add: clip_by_value_def tmap_def)

lemma example_nan_indices:
  "[0, 0, 0] \<in> set (indices (shape (clip_by_value example_infections_nan (1 / 10 ^ 7) (10 ^ 9))))"
  "[1, 0, 1] \<in> set (indices (shape (clip_by_value example_infections_nan (1 / 10 ^ 7) (10 ^ 9))))"
  unfolding clip_by_value_simps indices_iff
  by (simp_all add: example_infections_nan_def All_less_Suc2)

lemma example_nan_clipped:
  "entry (clip_by_value example_infections_nan (1 / 10 ^ 7) (10 ^ 9)) [0, 0, 0] = NaN"
  "entry (clip_by_value example_infections_nan (1 / 10 ^ 7) (10 ^ 9)) [0, 0, 1] = Number (10 ^ 9)"
  "entry (clip_by_value example_infections_nan (1 / 10 ^ 7) (10 ^ 9)) [1, 0, 0] = Number (1 / 10 ^ 7)"
  "entry (clip_by_value example_infections_nan (1 / 10 ^ 7) (10 ^ 9)) [1, 0, 1] = Number 50"
  by (simp_all add: clip_by_value_simps example_infections_nan_def)

text \<open>
  C4 as stated fails: where the result of \<open>InfectionModel\<close> is NaN, the entry of the
  clipped \<open>new_E_t\<close> of the trace is NaN, which is no number of the interval.
\<close>

theorem new_E_t_nan_counterexample:
  "shapes_ok example_submodels_nan
 \<and> InfectionModel example_submodels_nan (N_data_tensor example_params)
      (np_zeros []) (np_zeros []) (tmap Some (np_zeros [])) (np_zeros [])
      = example_infections_nan
 \<and> entry example_infections_nan [0, 0, 0] = NaN
 \<and> map_of (fst (main_model example_submodels_nan (call_studentT_likelihood example_sigma)
      example_params)) ''new_E_t''
      = Some (clip_by_value example_infections_nan (1 / 10 ^ 7) (10 ^ 9))
 \<and> [0, 0, 0] \<in> set (indices (shape (clip_by_value example_infections_nan (1 / 10 ^ 7) (10 ^ 9))))
 \<and> entry (clip_by_value example_infections_nan (1 / 10 ^ 7) (10 ^ 9)) [0, 0, 0] = NaN"
  using example_nan_shapes_ok example_nan_trace example_nan_indices(1) example_nan_clipped(1)
  by (simp add: example_submodels_nan_def example_infections_nan_def)

theorem new_E_t_within_clip_range_witness:
  "shapes_ok example_submodels_nan
 \<and> map_of (fst (main_model example_submodels_nan (call_studentT_likelihood example_sigma)
      example_params)) ''new_E_t''
      = Some (clip_by_value example_infections_nan (1 / 10 ^ 7) (10 ^ 9))
 \<and> [0, 0, 0] \<in> set (indices (shape (clip_by_value example_infections_nan (1 / 10 ^ 7) (10 ^ 9))))
 \<and> entry example_infections_nan [0, 0, 0] = NaN
 \<and> entry (clip_by_value example_infections_nan (1 / 10 ^ 7) (10 ^ 9)) [0, 0, 0] = NaN
 \<and> entry example_infections_nan [0, 0, 1] = PosInf
 \<and> entry (clip_by_value example_infections_nan (1 / 10 ^ 7) (10 ^ 9)) [0, 0, 1] = Number (10 ^ 9)
 \<and> entry example_infections_nan [1, 0, 0] = NegInf
 \<and> entry (clip_by_value example_infections_nan (1 / 10 ^ 7) (10 ^ 9)) [1, 0, 0] = Number (1 / 10 ^ 7)
 \<and> [1, 0, 1] \<in> set (indices (shape (clip_by_value example_infections_nan (1 / 10 ^ 7) (10 ^ 9))))
 \<and> entry example_infections_nan [1, 0, 1] \<noteq> NaN
 \<and> (\<exists>x. entry (clip_by_value example_infections_nan (1 / 10 ^ 7) (10 ^ 9)) [1, 0, 1] = Number x
         \<and> 1 / 10 ^ 7 \<le> x \<and> x \<le> 10 ^ 9 \<and> 0 < x)"
proof -
  let ?E = "clip_by_value example_infections_nan (1 / 10 ^ 7) (10 ^ 9)"
  let ?f = "call_studentT_likelihood example_sigma"
  have raw: "\<And>h R Cn g. InfectionModel example_submodels_nan (N_data_tensor example_params) h R Cn g
               = example_infections_nan"
    by (simp add: example_submodels_nan_def)
  have v: "entry example_infections_nan [1, 0, 1] \<noteq> NaN" "entry example_infections_nan [0, 0, 0] = NaN"
    "entry example_infections_nan [0, 0, 1] = PosInf" "entry example_infections_nan [1, 0, 0] = NegInf"
    by (simp_all add: example_infections_nan_def)
  from new_E_t_within_clip_range [of example_submodels_nan ?f example_params]
  have "\<forall>idx \<in> set (indices (shape ?E)).
                (entry example_infections_nan idx = NaN \<and> entry ?E idx = NaN)
              \<or> (entry example_infections_nan idx \<noteq> NaN
                   \<and> (\<exists>x. entry ?E idx = Number x \<and> 1 / 10 ^ 7 \<le> x \<and> x \<le> 10 ^ 9 \<and> 0 < x))"
    using example_nan_trace [of ?f] by (auto simp: raw)
  with example_nan_indices(2) v(1)
  have "\<exists>x. entry ?E [1, 0, 1] = Number x \<and> 1 / 10 ^ 7 \<le> x \<and> x \<le> 10 ^ 9 \<and> 0 < x"
    by blast
  then show ?thesis
    using example_nan_shapes_ok example_nan_trace [of ?f] example_nan_indices example_nan_clipped v
    by simp
qed

theorem weekly_modulation_disabled_witness:
  "shapes_ok example_submodels
 \<and> map fst (fst (main_model example_submodels Inr example_params)) = [''C'', ''h_0_t'', ''new_E_t'']
 \<and> map_of (fst (main_model example_submodels Inr example_params)) ''new_E_t''
      = Some (clip_by_value example_infections (1 / 10 ^ 7) (10 ^ 9))
 \<and> generate_testing example_submodels example_params
        (clip_by_value example_infections (1 / 10 ^ 7) (10 ^ 9)) =
      (tmap (\<lambda>x. 10 * number_or_zero x) (clip_by_value example_infections (1 / 10 ^ 7) (10 ^ 9)),
       tmap (\<lambda>x. number_or_zero x / 2) (clip_by_value example_infections (1 / 10 ^ 7) (10 ^ 9)))
 \<and> snd (main_model example_submodels Inr example_params) =
      Inr [VParams example_params,
           VTensor (tmap (\<lambda>x. number_or_zero x / 2)
                      (clip_by_value example_infections (1 / 10 ^ 7) (10 ^ 9))),
           VTensor (tmap (\<lambda>x. 10 * number_or_zero x)
                      (clip_by_value example_infections (1 / 10 ^ 7) (10 ^ 9))),
           VTensor (tmap (\<lambda>x. number_or_zero x / 100)
                      (clip_by_value example_infections (1 / 10 ^ 7) (10 ^ 9)))]"
proof -
  let ?E = "clip_by_value example_infections (1 / 10 ^ 7) (10 ^ 9)"
  from weekly_modulation_disabled [OF example_shapes_ok, of "Inr :: py_value list \<Rightarrow> py_error + py_value list" example_params]
  obtain E where
    E: "map_of (fst (main_model example_submodels Inr example_params)) ''new_E_t'' = Some E"
    and r: "snd (main_model example_submodels Inr example_params) =
         Inr [VParams example_params,
                     VTensor (snd (generate_testing example_submodels example_params E)),
                     VTensor (fst (generate_testing example_submodels example_params E)),
                     VTensor (calc_delayed_deaths example_submodels E (calc_Phi_IFR example_submodels example_params)
                                (fst (construct_reporting_delay example_submodels example_params))
                                (snd (construct_reporting_delay example_submodels example_params)))]"
    and n: "map fst (fst (main_model example_submodels Inr example_params)) = [''C'', ''h_0_t'', ''new_E_t'']"
    by (elim exE conjE) (rule that)
  have "map_of (fst (main_model example_submodels Inr example_params)) ''new_E_t'' = Some ?E"
    using example_model_eval [of "Inr :: py_value list \<Rightarrow> py_error + py_value list"] by auto
  with E have EE: "E = ?E" by simp
  show ?thesis
    using example_shapes_ok E r n
    by (simp add: EE) (simp add: example_submodels_def)
qed


lemma example_cholesky_values:
  "shape example_cholesky = [1] @ [2, 2]"
  "entry example_cholesky [0, 0, 0] = 1" "entry example_cholesky [0, 0, 1] = 0"
  "entry example_cholesky [0, 1, 0] = - 3 / 5" "entry example_cholesky [0, 1, 1] = 4 / 5"
  by (simp_all add: example_cholesky_def)

lemma upt2: "[0..<2] = [0, 1]"
  by (simp add: upt_rec)

lemma example_contact_matrix:
  "\<not> isl (contact_matrix example_cholesky)
 \<and> entry (fst (projr (contact_matrix example_cholesky))) [0, 0, 0] = 1
 \<and> entry (fst (projr (contact_matrix example_cholesky))) [0, 0, 1] = - 3 / 5
 \<and> entry (snd (projr (contact_matrix example_cholesky))) [0, 0, 0] = Some (5 / 8)
 \<and> entry (snd (projr (contact_matrix example_cholesky))) [0, 0, 1] = Some (- 3 / 8)"
proof -
  from contact_matrix_entries [OF example_cholesky_values(1)] obtain C Cn where
    cm: "contact_matrix example_cholesky = Inr (C, Cn)"
    and ent: "\<forall>p a b. p \<in> set (indices [1]) \<longrightarrow>
           entry C (p @ [a, b]) = (\<Sum>n\<leftarrow>[0..<2]. entry example_cholesky (p @ [a, n]) * entry example_cholesky (p @ [b, n]))
         \<and> entry Cn (p @ [a, b]) =
             tf_div (entry C (p @ [a, b])) (\<Sum>j\<leftarrow>[0..<2]. \<bar>entry C (p @ [a, j])\<bar>)"
    by (elim exE conjE) (rule that)
  have p: "[0] \<in> set (indices [1])" by simp
  have c: "entry C [0, 0, 0] = 1" "entry C [0, 0, 1] = - 3 / 5"
    using ent [rule_format, OF p, of 0 0] ent [rule_format, OF p, of 0 1]
    by (simp_all add: upt2 example_cholesky_def)
  have "entry Cn [0, 0, 0] = Some (5 / 8)" "entry Cn [0, 0, 1] = Some (- 3 / 8)"
    using ent [rule_format, OF p, of 0 0] ent [rule_format, OF p, of 0 1]
    by (simp_all add: upt2 c tf_div_def del: One_nat_def)
  then show ?thesis using cm c by simp
qed

text \<open>
  C5 as stated fails: for the Cholesky factor \<open>[[1, 0], [-3/5, 4/5]]\<close> the first row of
  the normalized contact matrix is \<open>[5/8, -3/8]\<close>, which sums to \<open>1/4\<close>.
\<close>

theorem contact_matrix_row_sum_counterexample:
  "shape example_cholesky = [1, 2, 2]
 \<and> entry example_cholesky [0, 0, 0] = 1 \<and> entry example_cholesky [0, 0, 1] = 0
 \<and> entry example_cholesky [0, 1, 0] = - 3 / 5 \<and> entry example_cholesky [0, 1, 1] = 4 / 5
 \<and> (1 :: real) * 1 + 0 * 0 = 1 \<and> (- 3 / 5 :: real) * (- 3 / 5) + (4 / 5) * (4 / 5) = 1
 \<and> \<not> isl (contact_matrix example_cholesky)
 \<and> shape (snd (projr (contact_matrix example_cholesky))) = [1, 2, 2]
 \<and> entry (snd (projr (contact_matrix example_cholesky))) [0, 0, 0] = Some (5 / 8)
 \<and> entry (snd (projr (contact_matrix example_cholesky))) [0, 0, 1] = Some (- 3 / 8)
 \<and> (5 / 8 :: real) + (- 3 / 8) = 1 / 4
 \<and> (5 / 8 :: real) + (- 3 / 8) \<noteq> 1"
proof -
  from contact_matrix_entries [OF example_cholesky_values(1)]
  have "shape (snd (projr (contact_matrix example_cholesky))) = [1, 2, 2]"
    by auto
  then show ?thesis
    using example_contact_matrix example_cholesky_values by simp
qed

theorem contact_matrix_rows_abs_sum_one_witness:
  "shape example_cholesky = [1] @ [2, 2]
 \<and> list_all (\<lambda>p. list_all (\<lambda>a. list_ex (\<lambda>n. entry example_cholesky (p @ [a, n]) \<noteq> 0) [0..<2]) [0..<2])
      (indices [1])
 \<and> \<not> isl (contact_matrix example_cholesky)
 \<and> entry (snd (projr (contact_matrix example_cholesky))) [0, 0, 0] = Some (5 / 8)
 \<and> entry (snd (projr (contact_matrix example_cholesky))) [0, 0, 1] = Some (- 3 / 8)
 \<and> \<bar>5 / 8 :: real\<bar> + \<bar>- 3 / 8\<bar> = 1
 \<and> (\<exists>row. map (\<lambda>b. entry (snd (projr (contact_matrix example_cholesky))) ([0] @ [0, b])) [0..<2]
              = map Some row \<and> (\<Sum>x\<leftarrow>row. \<bar>x\<bar>) = 1)"
proof -
  have h: "\<forall>p \<in> set (indices [1]). \<forall>a < 2. \<exists>n < 2. entry example_cholesky (p @ [a, n]) \<noteq> 0"
  proof (intro ballI allI impI)
    fix p a assume "p \<in> set (indices [1])" and "a < (2 :: nat)"
    then have "p = [0]" and "a = 0 \<or> a = 1" by auto
    then show "\<exists>n < 2. entry example_cholesky (p @ [a, n]) \<noteq> 0"
      by (auto simp: example_cholesky_def intro: exI [of _ 0] exI [of _ 1])
  qed
  have l: "list_all (\<lambda>p. list_all (\<lambda>a. list_ex (\<lambda>n. entry example_cholesky (p @ [a, n]) \<noteq> 0) [0..<2]) [0..<2])
      (indices [1])"
    by (simp add: upt2 example_cholesky_def)
  have p: "[0] \<in> set (indices [1])" by simp
  from contact_matrix_rows_abs_sum_one [OF example_cholesky_values(1) h]
  obtain C Cn where cm: "contact_matrix example_cholesky = Inr (C, Cn)"
    and rows: "\<forall>p \<in> set (indices [1]). \<forall>a < 2.
           \<exists>row. map (\<lambda>b. entry Cn (p @ [a, b])) [0..<2] = map Some row
               \<and> (\<Sum>x\<leftarrow>row. \<bar>x\<bar>) = 1
               \<and> ((\<forall>x \<in> set row. 0 \<le> x) \<longrightarrow> sum_list row = 1)"
    by (elim exE conjE) (rule that)
  from rows [rule_format, OF p, of 0]
  have "\<exists>row. map (\<lambda>b. entry Cn ([0] @ [0, b])) [0..<2] = map Some row \<and> (\<Sum>x\<leftarrow>row. \<bar>x\<bar>) = 1"
    by auto
  then show ?thesis
    using cm example_contact_matrix example_cholesky_values(1) l by simp
qed

section \<open>Properties of week_modulation\<close>

lemma isl_bind:
  "(\<And>v. isl (f v)) \<Longrightarrow> isl (case x of Inl e \<Rightarrow> Inl e | Inr v \<Rightarrow> f v)"
  by (cases x) auto

lemma week_modulation_abs_sine_isl:
  "isl (week_modulation G draws cases ''abs_sine'' weekend_days model)"
proof (cases model)
  case None
  then show ?thesis by (simp add: week_modulation_def)
next
  case (Some m)
  show ?thesis
  proof (cases "global_name G ''tt''")
    case (Inl e)
    then show ?thesis using Some by (simp add: week_modulation_def Let_def)
  next
    case (Inr u)
    then show ?thesis using Some
      by (simp add: week_modulation_def Let_def shape_padaxis_last_def times_modulation_def)
  qed
qed

lemma week_modulation_tt_unbound:
  "''tt'' \<notin> set G \<Longrightarrow>
   week_modulation G draws cases t weekend_days (Some m) = Inl (NameError ''tt'')"
  by (simp add: week_modulation_def Let_def global_name_def)

lemma week_modulation_no_model:
  "week_modulation G draws cases t weekend_days None = Inl (AttributeError ''sim_shape'')"
  by (simp add: week_modulation_def)

lemma week_modulation_name_cases_unbound:
  assumes "''name_cases'' \<notin> set G"
  shows "isl (week_modulation G draws cases t weekend_days model)"
proof (cases model)
  case None
  then show ?thesis by (simp add: week_modulation_def)
next
  case (Some m)
  have last: "global_name G ''name_cases'' = Inl (NameError ''name_cases'')"
    using assms by (simp add: global_name_def)
  show ?thesis
    unfolding week_modulation_def Let_def Some option.case last sum.case
    by (intro isl_bind) simp
qed

lemma globals_tt:
  "''tt'' \<in> set (weekly_modulation_globals pkg) \<longleftrightarrow> ''tt'' \<in> set pkg"
  by (simp add: weekly_modulation_globals_def model_py_names_def)

lemma globals_name_cases:
  "''name_cases'' \<in> set (weekly_modulation_globals pkg) \<longleftrightarrow> ''name_cases'' \<in> set pkg"
  by (simp add: weekly_modulation_globals_def model_py_names_def)

text \<open>
  C9. With \<open>week_modulation_type = "abs_sine"\<close> the function returns nothing, whatever
  its arguments and the globals of the module. With the globals the sources give the
  module, as long as the package does not export \<open>tt\<close> or does not export
  \<open>name_cases\<close>, every call fails, for every modulation type; and when \<open>tt\<close> is not
  exported the call with a model raises NameError for \<open>tt\<close>.
\<close>

theorem week_modulation_abs_sine_never_returns:
  "isl (week_modulation G draws cases ''abs_sine'' weekend_days model)
 \<and> (''tt'' \<notin> set pkg \<or> ''name_cases'' \<notin> set pkg \<longrightarrow>
       isl (week_modulation (weekly_modulation_globals pkg) draws cases t weekend_days model))
 \<and> (''tt'' \<notin> set pkg \<longrightarrow>
       week_modulation (weekly_modulation_globals pkg) draws cases ''abs_sine'' weekend_days (Some m)
         = Inl (NameError ''tt''))"
proof (intro conjI impI)
  show "isl (week_modulation G draws cases ''abs_sine'' weekend_days model)"
    by (rule week_modulation_abs_sine_isl)
next
  assume a: "''tt'' \<notin> set pkg \<or> ''name_cases'' \<notin> set pkg"
  show "isl (week_modulation (weekly_modulation_globals pkg) draws cases t weekend_days model)"
  proof (cases model)
    case None
    then show ?thesis by (simp add: week_modulation_no_model)
  next
    case (Some m)
    from a show ?thesis
    proof
      assume "''tt'' \<notin> set pkg"
      then show ?thesis using Some by (simp add: week_modulation_tt_unbound globals_tt)
    next
      assume "''name_cases'' \<notin> set pkg"
      then show ?thesis by (simp add: week_modulation_name_cases_unbound globals_name_cases)
    qed
  qed
next
  assume "''tt'' \<notin> set pkg"
  then show "week_modulation (weekly_modulation_globals pkg) draws cases ''abs_sine'' weekend_days (Some m)
         = Inl (NameError ''tt'')"
    by (simp add: week_modulation_tt_unbound globals_tt)
qed


theorem week_modulation_abs_sine_witness:
  "''tt'' \<notin> set package_names_used \<and> ''name_cases'' \<notin> set package_names_used
 \<and> week_modulation (weekly_modulation_globals package_names_used) example_week_draws
       example_week_cases ''abs_sine'' [6, 7] (Some example_week) = Inl (NameError ''tt'')
 \<and> isl (week_modulation (weekly_modulation_globals package_names_used) example_week_draws
       example_week_cases ''step'' [6, 7] (Some example_week))"
proof -
  have n: "''tt'' \<notin> set package_names_used" "''name_cases'' \<notin> set package_names_used"
    by (simp_all add: package_names_used_def)
  from week_modulation_abs_sine_never_returns
         [of "weekly_modulation_globals package_names_used" example_week_draws example_week_cases
             "[6, 7]" "Some example_week" package_names_used "''step''" example_week]
  show ?thesis using n by blast
qed

lemma all_names_bound_lookup:
  "global_name all_names_bound ''tt'' = Inr ()"
  "global_name all_names_bound ''datetime'' = Inr ()"
  "global_name all_names_bound ''name_cases'' = Inr ()"
  by (simp_all add: all_names_bound_def global_name_def weekly_modulation_globals_def
        model_py_names_def)

lemma example_step_modulation:
  "\<exists>M. step_modulation all_names_bound example_week [7] [6, 7] = Inr M \<and> shape M = [7]
     \<and> entry M [4] = 0 \<and> entry M [5] = 1 \<and> entry M [6] = 1"
  by (simp add: step_modulation_def upt_rec all_names_bound_lookup example_week_def
        max_ordinal_def isoweekday_def Let_def set_item_def np_zeros_def)


lemma example_step_all_bound:
  "\<exists>R. week_modulation all_names_bound example_week_draws example_week_cases ''step'' [6, 7]
          (Some example_week) = Inr R
     \<and> shape R = [7] \<and> entry R [5] = 100 \<and> entry R [6] = 100"
proof -
  obtain M where M: "step_modulation all_names_bound example_week [7] [6, 7] = Inr M"
    using example_step_modulation by blast
  have b1: "broadcast_shape [] [] = Some []" "broadcast_shape [7] [] = Some [7]"
    "broadcast_shape [7] [7] = Some [7]"
    by (simp_all add: broadcast_shape_def)
  show ?thesis
    using M
    by (simp add: week_modulation_def Let_def all_names_bound_lookup example_week_def
          example_week_draws_def example_week_cases_def times_modulation_def broadcast_op_def np_broadcast_op_def
          scalar_def np_ones_def tmap_def b1 bcast_index_def)
qed

text \<open>
  C8. On a week that starts on a Monday, with weekend days 6 and 7 and a weekend
  factor of \<open>3/10\<close>, the call with \<open>week_modulation_type = "step"\<close> raises NameError for
  \<open>tt\<close>. Were all names bound, \<open>step_modulation\<close> marks the Saturday (day 5), but line 168
  replaces its result by 0 and the 100 cases of the Saturday come back as 100, where
  the factor \<open>|1 - 3/10|\<close> gives 70.
\<close>

theorem week_modulation_step_not_applied:
  "week_modulation (weekly_modulation_globals package_names_used) example_week_draws
     example_week_cases ''step'' [6, 7] (Some example_week) = Inl (NameError ''tt'')
 \<and> isoweekday (sim_begin example_week + 5) = 6
 \<and> isoweekday (sim_begin example_week + 6) = 7
 \<and> \<not> isl (step_modulation all_names_bound example_week [7] [6, 7])
 \<and> entry (projr (step_modulation all_names_bound example_week [7] [6, 7])) [5] = 1
 \<and> \<not> isl (week_modulation all_names_bound example_week_draws example_week_cases ''step'' [6, 7]
            (Some example_week))
 \<and> entry (projr (week_modulation all_names_bound example_week_draws example_week_cases ''step''
            [6, 7] (Some example_week))) [5] = 100
 \<and> entry example_week_cases [5] * \<bar>1 - exp (ln (3 / 10))\<bar> = 70"
proof -
  have n: "''tt'' \<notin> set (weekly_modulation_globals package_names_used)"
    by (simp add: globals_tt package_names_used_def)
  have w: "isoweekday (sim_begin example_week + 5) = 6" "isoweekday (sim_begin example_week + 6) = 7"
    by (simp_all add: isoweekday_def example_week_def)
  have c: "entry example_week_cases [5] * \<bar>1 - exp (ln (3 / 10))\<bar> = 70"
    by (simp add: example_week_cases_def)
  from example_step_modulation example_step_all_bound week_modulation_tt_unbound [OF n] w c
  show ?thesis by auto
qed

end
